theory Spec2Isabelle
  imports Main "HOL-Library.Word"
begin

section \<open>Data model of the TLS core (tls\_core.c, tls\_conf.h)\<close>

text \<open>
  A \<open>server_rec\<close> of the host is only ever compared by address and used as a key for
  its module configuration; it is modelled by its identity. Handles of the TLS library
  (certified keys, peer certificates) are opaque and modelled by identities as well.
\<close>

type_synonym server_rec = nat
type_synonym apr_uint16_t = "16 word"
type_synonym rustls_certified_key = nat
type_synonym rustls_certificate = nat

text \<open>Configuration flags of tls\_conf.h.\<close>

definition TLS_FLAG_UNSET :: int where "TLS_FLAG_UNSET = -1"
definition TLS_FLAG_FALSE :: int where "TLS_FLAG_FALSE = 0"
definition TLS_FLAG_TRUE :: int where "TLS_FLAG_TRUE = 1"

text \<open>Return values of the host's hooks and the HTTP status codes used by the request gate.\<close>

definition OK :: int where "OK = 0"
definition DECLINED :: int where "DECLINED = -1"
definition HTTP_FORBIDDEN :: int where "HTTP_FORBIDDEN = 403"
definition HTTP_MISDIRECTED_REQUEST :: int where "HTTP_MISDIRECTED_REQUEST = 421"
definition HTTP_SERVICE_UNAVAILABLE :: int where "HTTP_SERVICE_UNAVAILABLE = 503"

datatype apr_status_t =
    APR_SUCCESS | APR_EINVAL | APR_ENOMEM | APR_ENOTIMPL | APR_NOTFOUND
  | APR_EGENERAL | APR_ECONNABORTED | APR_OTHER nat

datatype rustls_result =
    RUSTLS_RESULT_OK | RUSTLS_RESULT_NULL_PARAMETER | RUSTLS_RESULT_PANIC | RUSTLS_RESULT_ERROR nat

datatype tls_client_auth_t =
  TLS_CLIENT_AUTH_NONE | TLS_CLIENT_AUTH_REQUIRED | TLS_CLIENT_AUTH_OPTIONAL

text \<open>
  Modelled from the spec: the enumeration \<open>tls_conn_state_t\<close> of tls\_core.h, which is
  not among the sources. The spec lists the states in their order:
  INIT, DISABLED, PRE\_HANDSHAKE, HANDSHAKE, TRAFFIC, NOTIFIED, DONE.
  \<open>state_rank\<close> is the value of the C enumerator.
\<close>

datatype tls_conn_state_t =
    TLS_CONN_ST_INIT | TLS_CONN_ST_DISABLED | TLS_CONN_ST_PRE_HANDSHAKE
  | TLS_CONN_ST_HANDSHAKE | TLS_CONN_ST_TRAFFIC | TLS_CONN_ST_NOTIFIED | TLS_CONN_ST_DONE

fun state_rank :: "tls_conn_state_t \<Rightarrow> nat" where
  "state_rank TLS_CONN_ST_INIT = 0"
| "state_rank TLS_CONN_ST_DISABLED = 1"
| "state_rank TLS_CONN_ST_PRE_HANDSHAKE = 2"
| "state_rank TLS_CONN_ST_HANDSHAKE = 3"
| "state_rank TLS_CONN_ST_TRAFFIC = 4"
| "state_rank TLS_CONN_ST_NOTIFIED = 5"
| "state_rank TLS_CONN_ST_DONE = 6"

text \<open>A listen or server address: \<open>server_addr_rec\<close> with its \<open>apr_sockaddr_t\<close>.\<close>

record apr_sockaddr_t =
  ipaddr_len :: nat
  ipaddr_ptr :: "8 word list"

record server_addr_rec =
  host_port :: "16 word"
  host_addr :: apr_sockaddr_t

text \<open>A certificate specification: file names or in-memory PEM data.\<close>

record tls_cert_spec_t =
  cert_file :: "string option"
  pkey_file :: "string option"
  cert_pem :: "string option"
  pkey_pem :: "string option"

text \<open>
  The protocol profile (\<open>tls_proto_conf_t\<close>): what the TLS library supports, in the
  library's default order.
\<close>

record tls_proto_conf_t =
  supported_cipher_ids :: "apr_uint16_t list"
  supported_versions :: "apr_uint16_t list"

text \<open>
  A server configuration of the TLS library, seen through what was configured on its
  builder.
\<close>

datatype hello_callback = No_callback | Extract_client_hello_values | Select_certified_key

record rustls_server_config =
  rc_client_auth :: tls_client_auth_t
  rc_hello_callback :: hello_callback
  rc_versions :: "apr_uint16_t list option"
  rc_ciphersuites :: "apr_uint16_t list option"
  rc_ignore_client_order :: bool
  rc_protocols :: "string list"
  rc_session_cache :: bool

text \<open>A session of the TLS library, seen through the configuration it was created from.\<close>

datatype rustls_connection = Rustls_connection rustls_server_config

record tls_conf_global_t =
  gc_ap_server :: server_rec
  gc_tls_addresses :: "server_addr_rec list"
  gc_proto :: tls_proto_conf_t
  gc_rustls_hello_config :: "rustls_server_config option"

record tls_conf_server_t =
  sc_server :: server_rec
  sc_global :: tls_conf_global_t
  sc_enabled :: int
  sc_cert_specs :: "tls_cert_spec_t list"
  sc_tls_protocol_min :: int
  sc_tls_pref_ciphers :: "apr_uint16_t list"
  sc_tls_supp_ciphers :: "apr_uint16_t list option"
  sc_honor_client_order :: int
  sc_strict_sni :: int
  sc_client_auth :: tls_client_auth_t
  sc_client_ca :: "string option"
  sc_certified_keys :: "rustls_certified_key list"
  sc_base_server :: bool
  sc_service_unavailable :: bool
  sc_rustls_config :: "rustls_server_config option"

text \<open>
  The per-connection record \<open>tls_conf_conn_t\<close>, with the fields tls\_core.c reads and
  writes. A NULL pointer is \<open>None\<close>.
\<close>

record tls_conf_conn_t =
  cc_server :: "server_rec option"
  cc_state :: tls_conn_state_t
  cc_rustls_connection :: "rustls_connection option"
  cc_client_hello_seen :: bool
  cc_sni_hostname :: "string option"
  cc_alpn :: "string list option"
  cc_application_protocol :: "string option"
  cc_local_keys :: "rustls_certified_key list option"
  cc_key :: "rustls_certified_key option"
  cc_key_cloned :: bool
  cc_service_unavailable :: bool
  cc_peer_certs :: "rustls_certificate list option"
  cc_tls_protocol_id :: apr_uint16_t
  cc_tls_protocol_name :: "string option"
  cc_tls_cipher_id :: apr_uint16_t
  cc_tls_cipher_name :: "string option"

text \<open>The host's connection and request records, with the fields the core uses.\<close>

record conn_rec =
  c_base_server :: server_rec
  c_outgoing :: bool
  c_aborted :: bool
  c_vhost_lookup_data :: bool
  c_conn_config :: "tls_conf_conn_t option"

record request_rec =
  r_connection :: conn_rec
  r_server :: "server_rec option"

definition tls_conf_conn_get :: "conn_rec \<Rightarrow> tls_conf_conn_t option" where
  "tls_conf_conn_get c = c_conn_config c"

definition tls_conf_conn_set :: "conn_rec \<Rightarrow> tls_conf_conn_t \<Rightarrow> conn_rec" where
  "tls_conf_conn_set c cc = c\<lparr>c_conn_config := Some cc\<rparr>"

text \<open>
  Modelled from the spec: the macro \<open>TLS_CONN_ST_IS_ENABLED\<close> of tls\_core.h, which is
  not among the sources. TLS is active on a connection that has a connection record
  whose state is PRE\_HANDSHAKE or later (neither INIT nor DISABLED).
\<close>

definition TLS_CONN_ST_IS_ENABLED :: "tls_conf_conn_t option \<Rightarrow> bool" where
  "TLS_CONN_ST_IS_ENABLED cc =
     (case cc of None \<Rightarrow> False
      | Some x \<Rightarrow> state_rank TLS_CONN_ST_PRE_HANDSHAKE \<le> state_rank (cc_state x))"

text \<open>
  Modelled from the spec: \<open>tls_util_array_uint16_contains\<close> of tls\_util.c, which is
  not among the sources: containment of a 16-bit id in an array of ids.
\<close>

definition tls_util_array_uint16_contains :: "apr_uint16_t list \<Rightarrow> apr_uint16_t \<Rightarrow> bool" where
  "tls_util_array_uint16_contains a n = (n \<in> set a)"

section \<open>Listen-address matching\<close>

text \<open>
  \<open>memcmp\<close> of the C library on two buffers: 0 when the first \<open>n\<close> bytes agree,
  otherwise the difference of the first two bytes that differ. The buffers of an
  address hold at least \<open>ipaddr_len\<close> bytes; a buffer that ends early compares as
  all zero bytes here.
\<close>

fun memcmp :: "8 word list \<Rightarrow> 8 word list \<Rightarrow> nat \<Rightarrow> int" where
  "memcmp xs ys 0 = 0"
| "memcmp (x # xs) (y # ys) (Suc n) =
     (if x = y then memcmp xs ys n else int (unat x) - int (unat y))"
| "memcmp [] (y # ys) (Suc n) = (if y = 0 then memcmp [] ys n else - int (unat y))"
| "memcmp (x # xs) [] (Suc n) = (if x = 0 then memcmp xs [] n else int (unat x))"
| "memcmp [] [] (Suc n) = 0"

text \<open>
  The inner loop of \<open>we_listen_on\<close> over the addresses \<open>sa\<close> of the server, for one
  listen address \<open>la\<close>. Both operands of \<open>memcmp\<close> are \<open>la\<close>'s bytes, as in the source.
\<close>

fun we_listen_on_sa :: "server_addr_rec \<Rightarrow> server_addr_rec list \<Rightarrow> bool" where
  "we_listen_on_sa la [] = False"
| "we_listen_on_sa la (sa # sas) =
     (if host_port la = host_port sa
         \<and> ipaddr_len (host_addr la) = ipaddr_len (host_addr sa)
         \<and> memcmp (ipaddr_ptr (host_addr la)) (ipaddr_ptr (host_addr la))
              (ipaddr_len (host_addr la)) = 0
      then True
      else we_listen_on_sa la sas)"

fun we_listen_on_la :: "server_addr_rec list \<Rightarrow> server_addr_rec list \<Rightarrow> int" where
  "we_listen_on_la [] addrs = 0"
| "we_listen_on_la (la # las) addrs =
     (if we_listen_on_sa la addrs then 1 else we_listen_on_la las addrs)"

definition we_listen_on ::
  "tls_conf_global_t \<Rightarrow> server_addr_rec list \<Rightarrow> tls_conf_server_t \<Rightarrow> int" where
  "we_listen_on gc s_addrs sc =
     (if gc_tls_addresses gc \<noteq> [] \<and> sc_base_server sc then 1
      else we_listen_on_la (gc_tls_addresses gc) s_addrs)"

section \<open>The request gate\<close>

text \<open>
  \<open>tls_conn_compatible_for\<close>: may the connection also serve requests for the server
  \<open>other\<close>? \<open>conf\<close> is \<open>tls_conf_server_get\<close>: the module configuration of a server,
  \<open>None\<close> when it has none. The comparison of the 16-bit protocol id with the
  \<open>int\<close> minimum is a comparison of C \<open>int\<close>s.
\<close>

definition tls_conn_compatible_for ::
  "(server_rec \<Rightarrow> tls_conf_server_t option) \<Rightarrow> tls_conf_conn_t \<Rightarrow> server_rec option \<Rightarrow> int" where
  "tls_conn_compatible_for conf cc other =
     (if cc_server cc = None \<or> other = None then 0
      else if cc_server cc = other then 1
      else case conf (the other) of
        None \<Rightarrow> 0
      | Some oc \<Rightarrow>
          if sc_tls_protocol_min oc > 0 \<and> uint (cc_tls_protocol_id cc) < sc_tls_protocol_min oc
          then 0
          else if (case sc_tls_supp_ciphers oc of
                     None \<Rightarrow> False
                   | Some supp \<Rightarrow> tls_util_array_uint16_contains supp (cc_tls_cipher_id cc))
          then 0
          else 1)"

definition tls_core_request_check ::
  "(server_rec \<Rightarrow> tls_conf_server_t option) \<Rightarrow> request_rec \<Rightarrow> int" where
  "tls_core_request_check conf r =
     (let cc = tls_conf_conn_get (r_connection r); rv = DECLINED in
      if \<not> TLS_CONN_ST_IS_ENABLED cc then rv
      else if cc_service_unavailable (the cc) then HTTP_SERVICE_UNAVAILABLE
      else if cc_sni_hostname (the cc) = None \<and> c_vhost_lookup_data (r_connection r)
        then HTTP_FORBIDDEN
      else if tls_conn_compatible_for conf (the cc) (r_server r) = 0
        then HTTP_MISDIRECTED_REQUEST
      else rv)"

section \<open>Post-config: cipher order, certificate specifications, server setup\<close>

text \<open>
  Modelled from the spec: \<open>tls_util_array_uint16_remove\<close> of tls\_util.c, which is not
  among the sources: the ids of \<open>from\<close> that are not in \<open>others\<close>, in the order of
  \<open>from\<close> (the spec's \<open>allowed = supported \ suppressed\<close>).
\<close>

definition tls_util_array_uint16_remove ::
  "apr_uint16_t list \<Rightarrow> apr_uint16_t list \<Rightarrow> apr_uint16_t list" where
  "tls_util_array_uint16_remove from others =
     filter (\<lambda>cid. \<not> tls_util_array_uint16_contains others cid) from"

text \<open>
  Modelled from the spec: \<open>tls_proto_is_cipher_supported\<close> of tls\_proto.c, which is not
  among the sources: the id is one of the cipher suites the library knows.
\<close>

definition tls_proto_is_cipher_supported :: "tls_proto_conf_t \<Rightarrow> apr_uint16_t \<Rightarrow> bool" where
  "tls_proto_is_cipher_supported proto cid =
     tls_util_array_uint16_contains (supported_cipher_ids proto) cid"

text \<open>
  Modelled from the spec: \<open>tls_proto_create_versions_plus\<close> of tls\_proto.c, which is
  not among the sources: the supported versions that are at least \<open>min\<close>, in the
  library's order.
\<close>

definition tls_proto_create_versions_plus ::
  "tls_proto_conf_t \<Rightarrow> apr_uint16_t \<Rightarrow> apr_uint16_t list" where
  "tls_proto_create_versions_plus proto min_version =
     filter (\<lambda>v. min_version \<le> v) (supported_versions proto)"

text \<open>
  \<open>APR_ARRAY_PUSH\<close> on an array that is created on its first use: \<open>None\<close> is the
  NULL array.
\<close>

definition array_push :: "'a list option \<Rightarrow> 'a \<Rightarrow> 'a list option" where
  "array_push a x = Some ((case a of None \<Rightarrow> [] | Some xs \<Rightarrow> xs) @ [x])"

text \<open>
  The first loop of \<open>set_ciphers\<close>, over the preferred ciphers: the state is the pair
  of \<open>ordered_ciphers\<close> and \<open>unsupported\<close>, both NULL at the start.
\<close>

fun set_ciphers_preferred ::
  "tls_proto_conf_t \<Rightarrow> apr_uint16_t list \<Rightarrow> apr_uint16_t list \<Rightarrow>
   apr_uint16_t list option \<times> apr_uint16_t list option \<Rightarrow>
   apr_uint16_t list option \<times> apr_uint16_t list option" where
  "set_ciphers_preferred proto ciphers [] st = st"
| "set_ciphers_preferred proto ciphers (cid # ids) (ordered_ciphers, unsupported) =
     (if tls_util_array_uint16_contains ciphers cid
      then set_ciphers_preferred proto ciphers ids (array_push ordered_ciphers cid, unsupported)
      else if \<not> tls_proto_is_cipher_supported proto cid
      then set_ciphers_preferred proto ciphers ids (ordered_ciphers, array_push unsupported cid)
      else set_ciphers_preferred proto ciphers ids (ordered_ciphers, unsupported))"

text \<open>The second loop: append every allowed cipher that is not yet in \<open>ordered_ciphers\<close>.\<close>

fun set_ciphers_others :: "apr_uint16_t list \<Rightarrow> apr_uint16_t list \<Rightarrow> apr_uint16_t list" where
  "set_ciphers_others [] ordered_ciphers = ordered_ciphers"
| "set_ciphers_others (cid # ids) ordered_ciphers =
     (if \<not> tls_util_array_uint16_contains ordered_ciphers cid
      then set_ciphers_others ids (ordered_ciphers @ [cid])
      else set_ciphers_others ids ordered_ciphers)"

text \<open>
  What \<open>set_ciphers\<close> reports besides its status: the cipher ids it handed to the
  library (\<open>None\<close> when the library's default was left alone) and the preferred ids it
  warned about as unsupported.
\<close>

record set_ciphers_result =
  sr_status :: apr_status_t
  sr_builder :: rustls_server_config
  sr_configured :: "apr_uint16_t list option"
  sr_warned :: "apr_uint16_t list"

text \<open>
  \<open>set_ciphers\<close>. \<open>set_ciphersuites\<close> is the result of
  \<open>rustls_server_config_builder_set_ciphersuites\<close>, \<open>rustls_error\<close> is
  \<open>tls_util_rustls_error\<close>. The result is \<open>None\<close> when the array of suppressed
  ciphers is NULL, which the source dereferences. The test
  \<open>ciphers != supported_cipher_ids\<close> compares pointers: it holds when
  \<open>ordered_ciphers\<close> was made, or when \<open>tls_util_array_uint16_remove\<close> removed an id
  and so returned a new array. Cipher suites of the library are named by their ids.
\<close>

definition set_ciphers ::
  "rustls_result \<Rightarrow> (rustls_result \<Rightarrow> apr_status_t) \<Rightarrow> tls_conf_server_t \<Rightarrow>
   rustls_server_config \<Rightarrow> set_ciphers_result option" where
  "set_ciphers set_ciphersuites rustls_error sc builder =
     (case sc_tls_supp_ciphers sc of
        None \<Rightarrow> None
      | Some supp \<Rightarrow>
         (let proto = gc_proto (sc_global sc);
              allowed = tls_util_array_uint16_remove (supported_cipher_ids proto) supp;
              (ordered_ciphers, unsupported) =
                 set_ciphers_preferred proto allowed (sc_tls_pref_ciphers sc) (None, None);
              ciphers = (case ordered_ciphers of
                           None \<Rightarrow> allowed
                         | Some oc \<Rightarrow> set_ciphers_others allowed oc);
              changed = (ordered_ciphers \<noteq> None \<or> ciphers \<noteq> supported_cipher_ids proto);
              warned = (case unsupported of None \<Rightarrow> [] | Some u \<Rightarrow> u)
          in if changed \<and> set_ciphersuites \<noteq> RUSTLS_RESULT_OK
             then Some \<lparr>sr_status = rustls_error set_ciphersuites, sr_builder = builder,
                        sr_configured = Some ciphers, sr_warned = []\<rparr>
             else Some \<lparr>sr_status = APR_SUCCESS,
                        sr_builder = (if changed then builder\<lparr>rc_ciphersuites := Some ciphers\<rparr>
                                      else builder),
                        sr_configured = (if changed then Some ciphers else None),
                        sr_warned = warned\<rparr>))"

text \<open>
  \<open>add_file_specs\<close>: one specification per certificate file, with the key file of the
  same index when there is one.
\<close>

definition add_file_specs ::
  "tls_cert_spec_t list \<Rightarrow> string list \<Rightarrow> string list \<Rightarrow> tls_cert_spec_t list" where
  "add_file_specs certificates cert_files key_files =
     certificates @
     map (\<lambda>i. \<lparr>cert_file = Some (cert_files ! i),
               pkey_file = (if i < length key_files then Some (key_files ! i) else None),
               cert_pem = None, pkey_pem = None\<rparr>)
         [0..<length cert_files]"

datatype cert_specs_log = Log_none | Log_fallback_warning | Log_no_certificates_error

text \<open>
  \<open>complete_cert_specs\<close>. \<open>add_cert_files\<close> and \<open>add_fallback_cert_files\<close> are what
  the host's \<open>ap_ssl_add_cert_files\<close> and \<open>ap_ssl_add_fallback_cert_files\<close> append
  to the arrays of certificate and key files. The function returns the specifications,
  the server configuration (with \<open>service_unavailable\<close> possibly set) and what it
  logged above trace level.
\<close>

definition complete_cert_specs ::
  "string list \<times> string list \<Rightarrow> string list \<times> string list \<Rightarrow> tls_conf_server_t \<Rightarrow>
   tls_cert_spec_t list \<times> tls_conf_server_t \<times> cert_specs_log" where
  "complete_cert_specs add_cert_files add_fallback_cert_files sc =
     (let specs0 = sc_cert_specs sc;
          cert_adds = fst add_cert_files;
          key_adds = snd add_cert_files;
          specs = add_file_specs specs0 cert_adds key_adds
      in if specs = [] then
           (let cert_adds2 = cert_adds @ fst add_fallback_cert_files;
                key_adds2 = key_adds @ snd add_fallback_cert_files
            in if length cert_adds2 > 0
               then (add_file_specs specs cert_adds2 key_adds2,
                     sc\<lparr>sc_service_unavailable := True\<rparr>, Log_fallback_warning)
               else if \<not> sc_base_server sc
               then (specs, sc, Log_no_certificates_error)
               else (specs, sc, Log_none))
         else (specs, sc, Log_none))"

text \<open>
  \<open>load_certified_keys\<close>: \<open>cert_reg\<close> is \<open>tls_cert_reg_get_certified_key\<close>, giving the
  key of a specification (\<open>Inr\<close>) or the status it failed with (\<open>Inl\<close>).
\<close>

fun load_certified_keys ::
  "(tls_cert_spec_t \<Rightarrow> apr_status_t + rustls_certified_key) \<Rightarrow> tls_conf_server_t \<Rightarrow>
   tls_cert_spec_t list \<Rightarrow> apr_status_t \<times> tls_conf_server_t" where
  "load_certified_keys cert_reg sc [] = (APR_SUCCESS, sc)"
| "load_certified_keys cert_reg sc (spec # specs) =
     (case cert_reg spec of
        Inl rv \<Rightarrow> (rv, sc)
      | Inr ckey \<Rightarrow>
          load_certified_keys cert_reg
            (sc\<lparr>sc_certified_keys := sc_certified_keys sc @ [ckey]\<rparr>) specs)"

text \<open>
  How a call ends. Several functions of tls\_core.c end in a block
  \<open>cleanup: if (RUSTLS_RESULT_OK != rr) { ...; goto cleanup; }\<close> that jumps back to its
  own label without changing \<open>rr\<close>. Such a call is run with fuel, one unit per pass
  through the block: \<open>Done\<close> is a call that returned, \<open>Spinning\<close> a call that is
  still inside the block when the fuel is used up (with the state it has reached), and
  \<open>Crashed\<close> a call that dereferenced a NULL pointer or failed an assertion.
\<close>

datatype ('a, 's) run = Done 'a | Spinning 's | Crashed

text \<open>
  What the host and the TLS library answer during the setup of one server:
  the status of \<open>tls_cert_client_verifiers_get\<close> (or its optional variant), whether a
  builder could be allocated, the files other modules contribute, the certificate
  registry, the results of the builder's setters, the status of
  \<open>tls_cache_init_server\<close>, whether the build gave a configuration, and
  \<open>tls_util_rustls_error\<close>.
\<close>

record setup_host =
  h_verifiers_get :: apr_status_t
  h_builder_new :: bool
  h_add_cert_files :: "string list \<times> string list"
  h_add_fallback_cert_files :: "string list \<times> string list"
  h_cert_reg :: "tls_cert_spec_t \<Rightarrow> apr_status_t + rustls_certified_key"
  h_set_versions :: rustls_result
  h_set_ciphersuites :: rustls_result
  h_set_ignore_client_order :: rustls_result
  h_set_protocols :: rustls_result
  h_cache_init_server :: apr_status_t
  h_builder_build :: bool
  h_rustls_error :: "rustls_result \<Rightarrow> apr_status_t"

definition rustls_server_config_builder_new :: "tls_client_auth_t \<Rightarrow> rustls_server_config" where
  "rustls_server_config_builder_new auth =
     \<lparr>rc_client_auth = auth, rc_hello_callback = No_callback, rc_versions = None,
      rc_ciphersuites = None, rc_ignore_client_order = False, rc_protocols = [],
      rc_session_cache = False\<rparr>"

text \<open>The first part of \<open>server_conf_setup\<close>: the builder, or the status to fail with.\<close>

definition server_conf_setup_builder ::
  "setup_host \<Rightarrow> tls_conf_server_t \<Rightarrow> apr_status_t + rustls_server_config" where
  "server_conf_setup_builder h sc =
     (if sc_client_auth sc \<noteq> TLS_CLIENT_AUTH_NONE then
        if sc_client_ca sc = None then Inl APR_EINVAL
        else if h_verifiers_get h \<noteq> APR_SUCCESS then Inl (h_verifiers_get h)
        else if \<not> h_builder_new h then Inl APR_ENOMEM
        else Inr (rustls_server_config_builder_new (sc_client_auth sc))
      else if \<not> h_builder_new h then Inl APR_ENOMEM
      else Inr (rustls_server_config_builder_new TLS_CLIENT_AUTH_NONE))"

text \<open>
  The last part of \<open>server_conf_setup\<close>, from \<open>set_ciphers\<close> to the build. The
  result is the triple of \<open>rr\<close>, \<open>rv\<close> and the server configuration at the label
  \<open>cleanup\<close>; \<open>None\<close> is a NULL dereference.
\<close>

definition server_conf_setup_finish ::
  "setup_host \<Rightarrow> tls_conf_server_t \<Rightarrow> rustls_server_config \<Rightarrow>
   (rustls_result \<times> apr_status_t \<times> tls_conf_server_t) option" where
  "server_conf_setup_finish h sc builder =
     (case set_ciphers (h_set_ciphersuites h) (h_rustls_error h) sc builder of
        None \<Rightarrow> None
      | Some res \<Rightarrow>
          if sr_status res \<noteq> APR_SUCCESS then Some (RUSTLS_RESULT_OK, sr_status res, sc)
          else if h_set_ignore_client_order h \<noteq> RUSTLS_RESULT_OK
          then Some (h_set_ignore_client_order h, APR_SUCCESS, sc)
          else if h_set_protocols h \<noteq> RUSTLS_RESULT_OK
          then Some (h_set_protocols h, APR_SUCCESS, sc)
          else if h_cache_init_server h \<noteq> APR_SUCCESS
          then Some (RUSTLS_RESULT_OK, h_cache_init_server h, sc)
          else if \<not> h_builder_build h
          then Some (RUSTLS_RESULT_OK, APR_ENOMEM, sc\<lparr>sc_rustls_config := None\<rparr>)
          else Some (RUSTLS_RESULT_OK, APR_SUCCESS,
                 sc\<lparr>sc_rustls_config := Some ((sr_builder res)
                    \<lparr>rc_ignore_client_order := (sc_honor_client_order sc = TLS_FLAG_FALSE),
                     rc_protocols := [''http/1.1''],
                     rc_session_cache := True\<rparr>)\<rparr>))"

text \<open>The middle part: the minimum protocol version.\<close>

definition server_conf_setup_versions ::
  "setup_host \<Rightarrow> tls_conf_server_t \<Rightarrow> rustls_server_config \<Rightarrow>
   (rustls_result \<times> apr_status_t \<times> tls_conf_server_t) option" where
  "server_conf_setup_versions h sc builder =
     (if sc_tls_protocol_min sc > 0 then
        (let tls_versions = tls_proto_create_versions_plus (gc_proto (sc_global sc))
                              (word_of_int (sc_tls_protocol_min sc))
         in if length tls_versions > 0 then
              if h_set_versions h \<noteq> RUSTLS_RESULT_OK
              then Some (h_set_versions h, APR_SUCCESS, sc)
              else server_conf_setup_finish h sc (builder\<lparr>rc_versions := Some tls_versions\<rparr>)
            else Some (RUSTLS_RESULT_OK, APR_ENOTIMPL, sc))
      else server_conf_setup_finish h sc builder)"

definition server_conf_setup_body ::
  "setup_host \<Rightarrow> tls_conf_server_t \<Rightarrow>
   (rustls_result \<times> apr_status_t \<times> tls_conf_server_t) option" where
  "server_conf_setup_body h sc =
     (case server_conf_setup_builder h sc of
        Inl rv \<Rightarrow> Some (RUSTLS_RESULT_OK, rv, sc)
      | Inr builder \<Rightarrow>
         (let (cert_specs, sc1, lg) =
                 complete_cert_specs (h_add_cert_files h) (h_add_fallback_cert_files h) sc;
              (rv, sc2) = load_certified_keys (h_cert_reg h)
                             (sc1\<lparr>sc_certified_keys := []\<rparr>) cert_specs
          in if rv \<noteq> APR_SUCCESS then Some (RUSTLS_RESULT_OK, rv, sc2)
             else server_conf_setup_versions h sc2
                    (builder\<lparr>rc_hello_callback := Select_certified_key\<rparr>)))"

text \<open>
  The block at \<open>cleanup\<close> of \<open>server_conf_setup\<close>: with \<open>rr\<close> not OK it translates
  the error, logs it and jumps to \<open>cleanup\<close> again.
\<close>

fun server_conf_setup_cleanup ::
  "nat \<Rightarrow> (rustls_result \<Rightarrow> apr_status_t) \<Rightarrow> rustls_result \<Rightarrow> apr_status_t \<Rightarrow>
   tls_conf_server_t \<Rightarrow> (apr_status_t \<times> tls_conf_server_t, tls_conf_server_t) run" where
  "server_conf_setup_cleanup 0 rustls_error rr rv sc =
     (if rr \<noteq> RUSTLS_RESULT_OK then Spinning sc else Done (rv, sc))"
| "server_conf_setup_cleanup (Suc fuel) rustls_error rr rv sc =
     (if rr \<noteq> RUSTLS_RESULT_OK
      then server_conf_setup_cleanup fuel rustls_error rr (rustls_error rr) sc
      else Done (rv, sc))"

definition server_conf_setup ::
  "nat \<Rightarrow> setup_host \<Rightarrow> tls_conf_server_t \<Rightarrow>
   (apr_status_t \<times> tls_conf_server_t, tls_conf_server_t) run" where
  "server_conf_setup fuel h sc =
     (case server_conf_setup_body h sc of
        None \<Rightarrow> Crashed
      | Some (rr, rv, sc') \<Rightarrow> server_conf_setup_cleanup fuel (h_rustls_error h) rr rv sc')"

section \<open>The connection lifecycle\<close>

text \<open>
  What is fixed for the process after post-config: \<open>tls_conf_server_get\<close> (the module
  configuration of a server, \<open>None\<close> when it has none), whether the host is recent
  enough for \<open>AP_MODULE_MAGIC_AT_LEAST(20210531, 0)\<close> (then \<open>c->outgoing\<close> is looked
  at), and \<open>tls_util_rustls_error\<close>.
\<close>

record tls_host =
  th_conf :: "server_rec \<Rightarrow> tls_conf_server_t option"
  th_module_magic_20210531 :: bool
  th_rustls_error :: "rustls_result \<Rightarrow> apr_status_t"

text \<open>The connection record as \<open>apr_pcalloc\<close> and \<open>cc_get_or_make\<close> leave it.\<close>

definition cc_new :: "server_rec \<Rightarrow> tls_conf_conn_t" where
  "cc_new base_server =
     \<lparr>cc_server = Some base_server, cc_state = TLS_CONN_ST_INIT, cc_rustls_connection = None,
      cc_client_hello_seen = False, cc_sni_hostname = None, cc_alpn = None,
      cc_application_protocol = None, cc_local_keys = None, cc_key = None,
      cc_key_cloned = False, cc_service_unavailable = False, cc_peer_certs = None,
      cc_tls_protocol_id = 0, cc_tls_protocol_name = None, cc_tls_cipher_id = 0,
      cc_tls_cipher_name = None\<rparr>"

definition cc_get_or_make :: "conn_rec \<Rightarrow> tls_conf_conn_t \<times> conn_rec" where
  "cc_get_or_make c =
     (case tls_conf_conn_get c of
        None \<Rightarrow> (let cc = cc_new (c_base_server c) in (cc, tls_conf_conn_set c cc))
      | Some cc \<Rightarrow> (cc, c))"

definition tls_core_conn_disable :: "conn_rec \<Rightarrow> conn_rec" where
  "tls_core_conn_disable c =
     (let (cc, c1) = cc_get_or_make c
      in if cc_state cc = TLS_CONN_ST_INIT
         then tls_conf_conn_set c1 (cc\<lparr>cc_state := TLS_CONN_ST_DISABLED\<rparr>)
         else c1)"

text \<open>
  \<open>rustls_server_connection_new\<close>: \<open>lib\<close> is the library's result for a
  configuration that is not NULL. The session is written to the out parameter only on
  success.
\<close>

definition rustls_server_connection_new ::
  "rustls_result \<Rightarrow> rustls_server_config option \<Rightarrow> rustls_result \<times> rustls_connection option" where
  "rustls_server_connection_new lib config =
     (case config of
        None \<Rightarrow> (RUSTLS_RESULT_NULL_PARAMETER, None)
      | Some cfg \<Rightarrow>
          if lib = RUSTLS_RESULT_OK then (RUSTLS_RESULT_OK, Some (Rustls_connection cfg))
          else (lib, None))"

text \<open>
  The block at \<open>cleanup\<close> of \<open>tls_core_conn_init\<close>: with \<open>rr\<close> not OK it logs, sets
  \<open>c->aborted\<close>, sets the state to DISABLED and jumps to \<open>cleanup\<close> again.
\<close>

fun tls_core_conn_init_cleanup ::
  "nat \<Rightarrow> rustls_result \<Rightarrow> tls_conf_conn_t \<Rightarrow> conn_rec \<Rightarrow> (int \<times> conn_rec, conn_rec) run" where
  "tls_core_conn_init_cleanup 0 rr cc c =
     (if rr \<noteq> RUSTLS_RESULT_OK then Spinning (tls_conf_conn_set c cc)
      else Done (if TLS_CONN_ST_IS_ENABLED (Some cc) then OK else DECLINED,
                 tls_conf_conn_set c cc))"
| "tls_core_conn_init_cleanup (Suc fuel) rr cc c =
     (if rr \<noteq> RUSTLS_RESULT_OK
      then tls_core_conn_init_cleanup fuel rr (cc\<lparr>cc_state := TLS_CONN_ST_DISABLED\<rparr>)
             (c\<lparr>c_aborted := True\<rparr>)
      else Done (if TLS_CONN_ST_IS_ENABLED (Some cc) then OK else DECLINED,
                 tls_conf_conn_set c cc))"

text \<open>
  \<open>tls_core_conn_init\<close>, up to the label \<open>cleanup\<close>: the result is \<open>rr\<close> and the
  connection record there, \<open>None\<close> when the configuration of the base server is
  dereferenced and is NULL. In \<open>!c->outgoing && sc->enabled == TLS_FLAG_TRUE\<close> the
  configuration is not read for an outgoing connection. \<open>lib\<close> is the library's
  result for the new probe session.
\<close>

definition tls_core_conn_init_body ::
  "tls_host \<Rightarrow> rustls_result \<Rightarrow> conn_rec \<Rightarrow> tls_conf_conn_t \<Rightarrow>
   (rustls_result \<times> tls_conf_conn_t) option" where
  "tls_core_conn_init_body host lib c cc =
     (let sc = th_conf host (c_base_server c);
          outgoing = (th_module_magic_20210531 host \<and> c_outgoing c) in
      if cc_state cc = TLS_CONN_ST_DISABLED then Some (RUSTLS_RESULT_OK, cc)
      else if cc_state cc = TLS_CONN_ST_INIT \<and> \<not> outgoing \<and> sc = None then None
      else
       (let cc1 = (if cc_state cc = TLS_CONN_ST_INIT
                   then (let enabled = (if outgoing then False
                                        else sc_enabled (the sc) = TLS_FLAG_TRUE)
                         in cc\<lparr>cc_state := (if enabled then TLS_CONN_ST_PRE_HANDSHAKE
                                             else TLS_CONN_ST_DISABLED)\<rparr>)
                   else cc)
        in if TLS_CONN_ST_IS_ENABLED (Some cc1) \<and> cc_rustls_connection cc1 = None then
             (case sc of
                None \<Rightarrow> None
              | Some sc' \<Rightarrow>
                 (case rustls_server_connection_new lib (gc_rustls_hello_config (sc_global sc')) of
                    (rr, conn) \<Rightarrow>
                      if rr \<noteq> RUSTLS_RESULT_OK then Some (rr, cc1)
                      else Some (rr, cc1\<lparr>cc_rustls_connection := conn,
                                        cc_service_unavailable := sc_service_unavailable sc'\<rparr>)))
           else Some (RUSTLS_RESULT_OK, cc1)))"

definition tls_core_conn_init ::
  "nat \<Rightarrow> tls_host \<Rightarrow> rustls_result \<Rightarrow> conn_rec \<Rightarrow> (int \<times> conn_rec, conn_rec) run" where
  "tls_core_conn_init fuel host lib c =
     (let (cc, c1) = cc_get_or_make c
      in case tls_core_conn_init_body host lib c1 cc of
           None \<Rightarrow> Crashed
         | Some (rr, cc1) \<Rightarrow> tls_core_conn_init_cleanup fuel rr cc1 c1)"

text \<open>
  What the TLS library and the host report after the handshake:
  \<open>rustls_connection_is_handshaking\<close>, the negotiated protocol version and its name,
  the id of the negotiated cipher suite (\<open>None\<close> when the library reports no suite) and
  the name of a cipher, the peer certificates by index, and the status of
  \<open>tls_var_handshake_done\<close>.
\<close>

record handshake_host =
  ph_is_handshaking :: bool
  ph_protocol_version :: apr_uint16_t
  ph_version_name :: "apr_uint16_t \<Rightarrow> string"
  ph_negotiated_ciphersuite :: "apr_uint16_t option"
  ph_cipher_name :: "apr_uint16_t \<Rightarrow> string"
  ph_peer_certificates :: "rustls_certificate list"
  ph_var_handshake_done :: apr_status_t

text \<open>
  \<open>tls_core_conn_post_handshake\<close>. The status \<open>APR_ECONNABORTED\<close> assigned when a
  required client certificate is missing is followed by the assignment
  \<open>rv = tls_var_handshake_done(c)\<close>, as in the source.
\<close>

definition tls_core_conn_post_handshake ::
  "tls_host \<Rightarrow> handshake_host \<Rightarrow> conn_rec \<Rightarrow> (apr_status_t \<times> conn_rec, conn_rec) run" where
  "tls_core_conn_post_handshake host ph c =
     (case tls_conf_conn_get c of
        None \<Rightarrow> Crashed
      | Some cc \<Rightarrow>
         (case cc_server cc of
            None \<Rightarrow> Crashed
          | Some srv \<Rightarrow>
              if ph_is_handshaking ph then Done (APR_EGENERAL, c)
              else
               (case th_conf host srv of
                  None \<Rightarrow> Crashed
                | Some sc \<Rightarrow>
                   (let cc1 = cc\<lparr>cc_tls_protocol_id := ph_protocol_version ph,
                                 cc_tls_protocol_name :=
                                   Some (ph_version_name ph (ph_protocol_version ph))\<rparr>
                    in case ph_negotiated_ciphersuite ph of
                         None \<Rightarrow> Done (APR_EGENERAL, tls_conf_conn_set c cc1)
                       | Some suite \<Rightarrow>
                          (let cc2 = cc1\<lparr>cc_tls_cipher_id := suite,
                                          cc_tls_cipher_name := Some (ph_cipher_name ph suite)\<rparr>;
                               cc3 = (if ph_peer_certificates ph \<noteq> []
                                      then cc2\<lparr>cc_peer_certs := Some (ph_peer_certificates ph)\<rparr>
                                      else cc2);
                               rv0 = APR_SUCCESS;
                               rv1 = (if cc_peer_certs cc3 = None
                                         \<and> sc_client_auth sc = TLS_CLIENT_AUTH_REQUIRED
                                      then APR_ECONNABORTED else rv0);
                               rv2 = ph_var_handshake_done ph
                           in Done (rv2, tls_conf_conn_set c cc3))))))"

section \<open>After the client hello: virtual host and application protocol\<close>

text \<open>
  What the host and the TLS library answer while \<open>tls_core_conn_seen_client_hello\<close>
  runs: the servers \<open>ap_vhost_iterate_given_conn\<close> visits for the connection,
  \<open>tls_util_name_matches_server\<close>, the global \<open>ap_server_conf\<close>, whether
  \<open>rustls_server_config_builder_from_config\<close> gave a builder, \<open>ap_get_protocol\<close>,
  \<open>ap_select_protocol\<close>, the status of \<open>ap_switch_protocol\<close>, the result of
  \<open>rustls_server_config_builder_set_protocols\<close>, \<open>ap_ssl_answer_challenge\<close> (the
  PEM data of certificate and key for a host name, when the challenge is answered),
  \<open>tls_cert_load_cert_key\<close> (the key, or with \<open>Inl\<close> the status it failed with),
  whether \<open>rustls_server_config_builder_build\<close> gave a configuration, and the
  library's result for the new session.
\<close>

record hello_host =
  hh_vhosts :: "server_rec list"
  hh_name_matches :: "string \<Rightarrow> server_rec \<Rightarrow> bool"
  hh_ap_server_conf :: server_rec
  hh_builder_from_config :: bool
  hh_get_protocol :: string
  hh_select_protocol :: "server_rec \<Rightarrow> string list \<Rightarrow> string option"
  hh_switch_protocol :: apr_status_t
  hh_set_protocols :: rustls_result
  hh_answer_challenge :: "string option \<Rightarrow> (string \<times> string) option"
  hh_load_cert_key :: "tls_cert_spec_t \<Rightarrow> apr_status_t + rustls_certified_key"
  hh_builder_build :: bool
  hh_connection_new :: rustls_result

text \<open>The calls into the host and the TLS library that are recorded, in their order.\<close>

datatype host_call =
    Call_builder_from_config | Call_switch_protocol "server_rec option" string
  | Call_set_protocols string | Call_answer_challenge "string option" | Call_load_cert_key
  | Call_builder_free | Call_connection_free | Call_builder_build | Call_connection_new
  | Call_config_free

text \<open>
  The client hello as the library hands it to the callback: the SNI name (empty when the
  client sent none) and the ALPN protocols.
\<close>

record rustls_client_hello =
  hello_sni_name :: string
  hello_alpn :: "string list"

text \<open>
  \<open>extract_client_hello_values\<close>, the callback of the hello configuration, on a
  connection that has a connection record.
\<close>

definition extract_client_hello_values ::
  "rustls_client_hello \<Rightarrow> tls_conf_conn_t \<Rightarrow> tls_conf_conn_t" where
  "extract_client_hello_values hello cc =
     cc\<lparr>cc_client_hello_seen := True,
        cc_sni_hostname := (if length (hello_sni_name hello) > 0
                            then Some (hello_sni_name hello) else None),
        cc_alpn := (if length (hello_alpn hello) > 0 then Some (hello_alpn hello)
                    else cc_alpn cc)\<rparr>"

definition find_vhost ::
  "(string \<Rightarrow> server_rec \<Rightarrow> bool) \<Rightarrow> string \<Rightarrow> tls_conf_conn_t \<Rightarrow> server_rec \<Rightarrow>
   int \<times> tls_conf_conn_t" where
  "find_vhost name_matches sni_hostname cc s =
     (if name_matches sni_hostname s then (1, cc\<lparr>cc_server := Some s\<rparr>) else (0, cc))"

text \<open>
  The host's \<open>ap_vhost_iterate_given_conn\<close>: it calls the callback for the servers of
  the connection in turn and stops at the first that returns a value other than 0.
\<close>

fun ap_vhost_iterate_given_conn ::
  "(tls_conf_conn_t \<Rightarrow> server_rec \<Rightarrow> int \<times> tls_conf_conn_t) \<Rightarrow> server_rec list \<Rightarrow>
   tls_conf_conn_t \<Rightarrow> int \<times> tls_conf_conn_t" where
  "ap_vhost_iterate_given_conn func_cb [] cc = (0, cc)"
| "ap_vhost_iterate_given_conn func_cb (s # ss) cc =
     (case func_cb cc s of
        (rv, cc') \<Rightarrow> if rv \<noteq> 0 then (rv, cc') else ap_vhost_iterate_given_conn func_cb ss cc')"

definition use_local_key ::
  "(tls_cert_spec_t \<Rightarrow> apr_status_t + rustls_certified_key) \<Rightarrow> tls_conf_conn_t \<Rightarrow>
   string \<Rightarrow> string \<Rightarrow> apr_status_t \<times> tls_conf_conn_t" where
  "use_local_key load_cert_key cc cert_pem' pkey_pem' =
     (let spec = \<lparr>cert_file = None, pkey_file = None,
                  cert_pem = Some cert_pem', pkey_pem = Some pkey_pem'\<rparr>
      in case load_cert_key spec of
           Inl rv \<Rightarrow> (rv, cc)
         | Inr ckey \<Rightarrow> (APR_SUCCESS, cc\<lparr>cc_local_keys := Some [ckey]\<rparr>))"

text \<open>
  \<open>select_application_protocol\<close> up to its label \<open>cleanup\<close>: the result is \<open>rr\<close>,
  \<open>rv\<close>, the connection record, the builder and the calls made.
\<close>

definition select_application_protocol_body ::
  "hello_host \<Rightarrow> tls_conf_conn_t \<Rightarrow> server_rec \<Rightarrow> rustls_server_config \<Rightarrow>
   rustls_result \<times> apr_status_t \<times> tls_conf_conn_t \<times> rustls_server_config \<times> host_call list" where
  "select_application_protocol_body hh cc s builder =
     (let cc1 = cc\<lparr>cc_application_protocol := Some (hh_get_protocol hh)\<rparr> in
      case (case cc_alpn cc1 of
              None \<Rightarrow> None
            | Some alpn \<Rightarrow> if length alpn > 0 then hh_select_protocol hh s alpn else None) of
        None \<Rightarrow> (RUSTLS_RESULT_OK, APR_SUCCESS, cc1, builder, [])
      | Some proposed \<Rightarrow>
          if proposed = hh_get_protocol hh
          then (RUSTLS_RESULT_OK, APR_SUCCESS, cc1, builder, [])
          else if hh_switch_protocol hh \<noteq> APR_SUCCESS
          then (RUSTLS_RESULT_OK, hh_switch_protocol hh, cc1, builder,
                [Call_switch_protocol (cc_server cc1) proposed])
          else if hh_set_protocols hh \<noteq> RUSTLS_RESULT_OK
          then (hh_set_protocols hh, APR_SUCCESS, cc1, builder,
                [Call_switch_protocol (cc_server cc1) proposed,
                 Call_set_protocols proposed])
          else
           (let cc2 = cc1\<lparr>cc_application_protocol := Some proposed\<rparr>;
                builder2 = builder\<lparr>rc_protocols := [proposed]\<rparr>;
                calls = [Call_switch_protocol (cc_server cc1) proposed,
                         Call_set_protocols proposed]
            in if proposed \<noteq> ''h2'' \<and> proposed \<noteq> ''http/1.1'' then
                 (case hh_answer_challenge hh (cc_sni_hostname cc2) of
                    None \<Rightarrow> (RUSTLS_RESULT_OK, APR_SUCCESS, cc2, builder2,
                             calls @ [Call_answer_challenge (cc_sni_hostname cc2)])
                  | Some (cert_pem', key_pem') \<Rightarrow>
                     (case use_local_key (hh_load_cert_key hh) cc2 cert_pem' key_pem' of
                        (rv, cc3) \<Rightarrow>
                          if rv \<noteq> APR_SUCCESS
                          then (RUSTLS_RESULT_OK, rv, cc3, builder2,
                                calls @ [Call_answer_challenge (cc_sni_hostname cc2),
                                         Call_load_cert_key])
                          else (RUSTLS_RESULT_OK, APR_SUCCESS,
                                cc3\<lparr>cc_service_unavailable := True\<rparr>, builder2,
                                calls @ [Call_answer_challenge (cc_sni_hostname cc2),
                                         Call_load_cert_key])))
               else (RUSTLS_RESULT_OK, APR_SUCCESS, cc2, builder2, calls)))"

text \<open>
  The block at \<open>cleanup\<close> of \<open>select_application_protocol\<close>: with \<open>rr\<close> not OK it
  translates the error, logs it, sets \<open>c->aborted\<close> and jumps to \<open>cleanup\<close> again.
\<close>

fun select_application_protocol_cleanup ::
  "nat \<Rightarrow> (rustls_result \<Rightarrow> apr_status_t) \<Rightarrow> rustls_result \<Rightarrow> apr_status_t \<Rightarrow> conn_rec \<Rightarrow>
   (apr_status_t \<times> conn_rec, conn_rec) run" where
  "select_application_protocol_cleanup 0 rustls_error rr rv c =
     (if rr \<noteq> RUSTLS_RESULT_OK then Spinning c else Done (rv, c))"
| "select_application_protocol_cleanup (Suc fuel) rustls_error rr rv c =
     (if rr \<noteq> RUSTLS_RESULT_OK
      then select_application_protocol_cleanup fuel rustls_error rr (rustls_error rr)
             (c\<lparr>c_aborted := True\<rparr>)
      else Done (rv, c))"

definition select_application_protocol ::
  "nat \<Rightarrow> tls_host \<Rightarrow> hello_host \<Rightarrow> conn_rec \<Rightarrow> server_rec \<Rightarrow> rustls_server_config \<Rightarrow>
   (apr_status_t \<times> conn_rec \<times> rustls_server_config \<times> host_call list, conn_rec) run" where
  "select_application_protocol fuel host hh c s builder =
     (case tls_conf_conn_get c of
        None \<Rightarrow> Crashed
      | Some cc \<Rightarrow>
         (case select_application_protocol_body hh cc s builder of
            (rr, rv, cc', builder', calls) \<Rightarrow>
              (case select_application_protocol_cleanup fuel (th_rustls_error host) rr rv
                      (tls_conf_conn_set c cc') of
                 Done (rv', c') \<Rightarrow> Done (rv', c', builder', calls)
               | Spinning c' \<Rightarrow> Spinning c'
               | Crashed \<Rightarrow> Crashed)))"

text \<open>
  The choice of the server from the SNI host name in
  \<open>tls_core_conn_seen_client_hello\<close>: \<open>Inr\<close> carries \<open>sni_match\<close> and the
  connection record, \<open>Inl\<close> is the strict-SNI failure (the function leaves with
  \<open>APR_NOTFOUND\<close>).
\<close>

definition seen_client_hello_sni ::
  "hello_host \<Rightarrow> tls_conf_server_t \<Rightarrow> tls_conf_conn_t \<Rightarrow>
   tls_conf_conn_t + bool \<times> tls_conf_conn_t" where
  "seen_client_hello_sni hh initial_sc cc =
     (case cc_sni_hostname cc of
        None \<Rightarrow> Inr (False, cc)
      | Some sni \<Rightarrow>
         (case ap_vhost_iterate_given_conn (find_vhost (hh_name_matches hh) sni)
                 (hh_vhosts hh) cc of
            (found, cc') \<Rightarrow>
              if found \<noteq> 0 then Inr (True, cc')
              else if hh_name_matches hh sni (hh_ap_server_conf hh)
              then Inr (True, cc'\<lparr>cc_server := Some (hh_ap_server_conf hh)\<rparr>)
              else if sc_strict_sni initial_sc = TLS_FLAG_FALSE then Inr (False, cc')
              else Inl (cc'\<lparr>cc_server := Some (gc_ap_server (sc_global initial_sc))\<rparr>)))"

text \<open>
  The end of \<open>tls_core_conn_seen_client_hello\<close>, after the application protocol was
  selected: the probe session is freed and the session for the selected server is
  created from the built configuration.
\<close>

definition seen_client_hello_session ::
  "tls_host \<Rightarrow> hello_host \<Rightarrow> conn_rec \<Rightarrow> tls_conf_conn_t \<Rightarrow> rustls_server_config \<Rightarrow>
   host_call list \<Rightarrow> apr_status_t \<times> conn_rec \<times> host_call list" where
  "seen_client_hello_session host hh c cc builder calls =
     (let cc1 = cc\<lparr>cc_rustls_connection := None\<rparr>;
          config = (if hh_builder_build hh then Some builder else None);
          calls1 = calls @ [Call_connection_free, Call_builder_build, Call_connection_new]
      in case rustls_server_connection_new (hh_connection_new hh) config of
           (rr, conn) \<Rightarrow>
             if rr \<noteq> RUSTLS_RESULT_OK
             then (th_rustls_error host rr,
                   (tls_conf_conn_set c cc1)\<lparr>c_aborted := True\<rparr>,
                   calls1 @ (if config \<noteq> None then [Call_config_free] else []))
             else (APR_SUCCESS,
                   tls_conf_conn_set c (cc1\<lparr>cc_rustls_connection := conn\<rparr>),
                   calls1 @ [Call_config_free]))"

text \<open>
  The part of \<open>tls_core_conn_seen_client_hello\<close> after the server was chosen
  (\<open>reinit, we might have a new server selected\<close>).
\<close>

definition seen_client_hello_reinit ::
  "nat \<Rightarrow> tls_host \<Rightarrow> hello_host \<Rightarrow> conn_rec \<Rightarrow> tls_conf_server_t \<Rightarrow> bool \<Rightarrow>
   tls_conf_conn_t \<Rightarrow> (apr_status_t \<times> conn_rec \<times> host_call list, conn_rec) run" where
  "seen_client_hello_reinit fuel host hh c initial_sc sni_match cc1 =
     (case cc_server cc1 of
        None \<Rightarrow> Crashed
      | Some srv \<Rightarrow>
         (case th_conf host srv of
            None \<Rightarrow> Crashed
          | Some sc \<Rightarrow>
             (let cc2 = cc1\<lparr>cc_service_unavailable :=
                              (if sni_match then sc_service_unavailable sc else False)\<rparr>;
                  c2 = tls_conf_conn_set c cc2
              in if sc_rustls_config sc = None \<and> sc_rustls_config initial_sc = None
                 then Done (APR_NOTFOUND, c2, [])
                 else if \<not> hh_builder_from_config hh
                 then Done (APR_ENOMEM, c2, [Call_builder_from_config])
                 else
                  (let builder = (case sc_rustls_config sc of
                                    Some cfg \<Rightarrow> cfg
                                  | None \<Rightarrow> the (sc_rustls_config initial_sc))
                   in case select_application_protocol fuel host hh c2 srv builder of
                        Crashed \<Rightarrow> Crashed
                      | Spinning c' \<Rightarrow> Spinning c'
                      | Done (rv, c3, builder3, calls) \<Rightarrow>
                          if rv \<noteq> APR_SUCCESS
                          then Done (rv, c3, Call_builder_from_config # calls
                                             @ [Call_builder_free])
                          else
                           (case tls_conf_conn_get c3 of
                              None \<Rightarrow> Crashed
                            | Some cc3 \<Rightarrow>
                                Done (seen_client_hello_session host hh c3 cc3 builder3
                                        (Call_builder_from_config # calls)))))))"

text \<open>
  \<open>tls_core_conn_seen_client_hello\<close>. The result of a call that returns is its status,
  the connection and the calls it made into the host and the TLS library. The
  configuration of the server in \<open>sc\<close> is dereferenced on every path (at the latest
  by the log call at \<open>cleanup\<close>), so a server without one is a crash.
\<close>

definition tls_core_conn_seen_client_hello ::
  "nat \<Rightarrow> tls_host \<Rightarrow> hello_host \<Rightarrow> conn_rec \<Rightarrow>
   (apr_status_t \<times> conn_rec \<times> host_call list, conn_rec) run" where
  "tls_core_conn_seen_client_hello fuel host hh c =
     (case tls_conf_conn_get c of
        None \<Rightarrow> Crashed
      | Some cc \<Rightarrow>
         (case cc_server cc of
            None \<Rightarrow> Crashed
          | Some srv0 \<Rightarrow>
             (case th_conf host srv0 of
                None \<Rightarrow> Crashed
              | Some initial_sc \<Rightarrow>
                  if \<not> cc_client_hello_seen cc then Done (APR_SUCCESS, c, [])
                  else
                   (case seen_client_hello_sni hh initial_sc cc of
                      Inl cc' \<Rightarrow> Done (APR_NOTFOUND, tls_conf_conn_set c cc', [])
                    | Inr (sni_match, cc1) \<Rightarrow>
                        seen_client_hello_reinit fuel host hh c initial_sc sni_match cc1))))"

text \<open>
  The operations of the connection lifecycle, each with the answers of the host and the
  TLS library during the call (\<open>Op_client_hello\<close> is the library calling
  \<open>extract_client_hello_values\<close> on the probe session), and the connection record
  as a call leaves it: on return, or inside the endless block at \<open>cleanup\<close>.
  \<open>None\<close> is a crash.
\<close>

datatype conn_op =
    Op_conn_disable
  | Op_conn_init rustls_result
  | Op_client_hello rustls_client_hello
  | Op_seen_client_hello hello_host
  | Op_post_handshake handshake_host

fun run_conn :: "('a \<times> conn_rec, conn_rec) run \<Rightarrow> conn_rec option" where
  "run_conn (Done (rv, c)) = Some c"
| "run_conn (Spinning c) = Some c"
| "run_conn Crashed = None"

fun conn_op_apply :: "nat \<Rightarrow> tls_host \<Rightarrow> conn_op \<Rightarrow> conn_rec \<Rightarrow> conn_rec option" where
  "conn_op_apply fuel host Op_conn_disable c = Some (tls_core_conn_disable c)"
| "conn_op_apply fuel host (Op_conn_init lib) c = run_conn (tls_core_conn_init fuel host lib c)"
| "conn_op_apply fuel host (Op_client_hello hello) c =
     (case tls_conf_conn_get c of
        None \<Rightarrow> Some c
      | Some cc \<Rightarrow> Some (tls_conf_conn_set c (extract_client_hello_values hello cc)))"
| "conn_op_apply fuel host (Op_seen_client_hello hh) c =
     (case tls_core_conn_seen_client_hello fuel host hh c of
        Done (rv, c', calls) \<Rightarrow> Some c'
      | Spinning c' \<Rightarrow> Some c'
      | Crashed \<Rightarrow> None)"
| "conn_op_apply fuel host (Op_post_handshake ph) c =
     run_conn (tls_core_conn_post_handshake host ph c)"

fun conn_ops_apply :: "nat \<Rightarrow> tls_host \<Rightarrow> conn_op list \<Rightarrow> conn_rec \<Rightarrow> conn_rec option" where
  "conn_ops_apply fuel host [] c = Some c"
| "conn_ops_apply fuel host (op # ops) c =
     (case conn_op_apply fuel host op c of
        None \<Rightarrow> None
      | Some c' \<Rightarrow> conn_ops_apply fuel host ops c')"

text \<open>
  The connection record after a call that returned: \<open>None\<close> for a call that stays in
  the block at \<open>cleanup\<close> and for a crash. A sequence of operations goes on only
  while every call returns.
\<close>

fun conn_returned :: "('a \<times> conn_rec, conn_rec) run \<Rightarrow> conn_rec option" where
  "conn_returned (Done (rv, c)) = Some c"
| "conn_returned (Spinning c) = None"
| "conn_returned Crashed = None"

fun conn_op_return :: "nat \<Rightarrow> tls_host \<Rightarrow> conn_op \<Rightarrow> conn_rec \<Rightarrow> conn_rec option" where
  "conn_op_return fuel host Op_conn_disable c = Some (tls_core_conn_disable c)"
| "conn_op_return fuel host (Op_conn_init lib) c =
     conn_returned (tls_core_conn_init fuel host lib c)"
| "conn_op_return fuel host (Op_client_hello hello) c =
     (case tls_conf_conn_get c of
        None \<Rightarrow> Some c
      | Some cc \<Rightarrow> Some (tls_conf_conn_set c (extract_client_hello_values hello cc)))"
| "conn_op_return fuel host (Op_seen_client_hello hh) c =
     (case tls_core_conn_seen_client_hello fuel host hh c of
        Done (rv, c', calls) \<Rightarrow> Some c'
      | Spinning c' \<Rightarrow> None
      | Crashed \<Rightarrow> None)"
| "conn_op_return fuel host (Op_post_handshake ph) c =
     conn_returned (tls_core_conn_post_handshake host ph c)"


text \<open>
  The state of a connection: a connection that has no connection record yet gets one in
  state INIT from \<open>cc_get_or_make\<close>.
\<close>

definition conn_state :: "conn_rec \<Rightarrow> tls_conn_state_t" where
  "conn_state c = cc_state (fst (cc_get_or_make c))"

section \<open>Concrete configurations\<close>

text \<open>
  A small installation used to evaluate the functions: the library supports four cipher
  suites and TLS 1.3 and 1.2; server 0 is the base server, server 1 a virtual host
  named b.example; the host's protocol registry selects acme-tls/1 when the client
  offers it.
\<close>

definition ex_proto :: tls_proto_conf_t where
  "ex_proto = \<lparr>supported_cipher_ids = [0x1301, 0x1302, 0x1303, 0xC02B],
               supported_versions = [0x0304, 0x0303]\<rparr>"

definition ex_hello_config :: rustls_server_config where
  "ex_hello_config = (rustls_server_config_builder_new TLS_CLIENT_AUTH_NONE)
                       \<lparr>rc_hello_callback := Extract_client_hello_values\<rparr>"

definition ex_gc :: tls_conf_global_t where
  "ex_gc = \<lparr>gc_ap_server = 0, gc_tls_addresses = [], gc_proto = ex_proto,
            gc_rustls_hello_config = Some ex_hello_config\<rparr>"

definition ex_rustls_config :: rustls_server_config where
  "ex_rustls_config = (rustls_server_config_builder_new TLS_CLIENT_AUTH_NONE)
                        \<lparr>rc_hello_callback := Select_certified_key,
                         rc_protocols := [''http/1.1''], rc_session_cache := True\<rparr>"

definition ex_sc :: "server_rec \<Rightarrow> tls_conf_server_t" where
  "ex_sc s = \<lparr>sc_server = s, sc_global = ex_gc, sc_enabled = TLS_FLAG_TRUE,
              sc_cert_specs = [], sc_tls_protocol_min = 0, sc_tls_pref_ciphers = [],
              sc_tls_supp_ciphers = Some [], sc_honor_client_order = TLS_FLAG_TRUE,
              sc_strict_sni = TLS_FLAG_TRUE, sc_client_auth = TLS_CLIENT_AUTH_NONE,
              sc_client_ca = None, sc_certified_keys = [7], sc_base_server = (s = 0),
              sc_service_unavailable = False, sc_rustls_config = Some ex_rustls_config\<rparr>"

definition ex_host :: "(server_rec \<Rightarrow> tls_conf_server_t option) \<Rightarrow> tls_host" where
  "ex_host conf = \<lparr>th_conf = conf, th_module_magic_20210531 = True,
                   th_rustls_error = (\<lambda>rr. APR_EGENERAL)\<rparr>"

definition ex_conn :: conn_rec where
  "ex_conn = \<lparr>c_base_server = 0, c_outgoing = False, c_aborted = False,
              c_vhost_lookup_data = False, c_conn_config = None\<rparr>"

definition ex_hello_host :: hello_host where
  "ex_hello_host =
     \<lparr>hh_vhosts = [1],
      hh_name_matches = (\<lambda>name s. s = 1 \<and> name = ''b.example''),
      hh_ap_server_conf = 0,
      hh_builder_from_config = True,
      hh_get_protocol = ''http/1.1'',
      hh_select_protocol = (\<lambda>s alpn. if ''acme-tls/1'' \<in> set alpn then Some ''acme-tls/1''
                                      else None),
      hh_switch_protocol = APR_SUCCESS,
      hh_set_protocols = RUSTLS_RESULT_OK,
      hh_answer_challenge = (\<lambda>sni. Some (''CERT PEM'', ''KEY PEM'')),
      hh_load_cert_key = (\<lambda>spec. Inr 42),
      hh_builder_build = True,
      hh_connection_new = RUSTLS_RESULT_OK\<rparr>"

definition ex_handshake_host :: handshake_host where
  "ex_handshake_host =
     \<lparr>ph_is_handshaking = False, ph_protocol_version = 0x0304,
      ph_version_name = (\<lambda>v. ''TLSv1.3''), ph_negotiated_ciphersuite = Some 0x1301,
      ph_cipher_name = (\<lambda>c. ''TLS13_AES_128_GCM_SHA256''), ph_peer_certificates = [],
      ph_var_handshake_done = APR_SUCCESS\<rparr>"

definition ex_setup_host :: setup_host where
  "ex_setup_host =
     \<lparr>h_verifiers_get = APR_SUCCESS, h_builder_new = True,
      h_add_cert_files = ([], []), h_add_fallback_cert_files = ([], []),
      h_cert_reg = (\<lambda>spec. Inr 7),
      h_set_versions = RUSTLS_RESULT_OK, h_set_ciphersuites = RUSTLS_RESULT_OK,
      h_set_ignore_client_order = RUSTLS_RESULT_OK, h_set_protocols = RUSTLS_RESULT_OK,
      h_cache_init_server = APR_SUCCESS, h_builder_build = True,
      h_rustls_error = (\<lambda>rr. APR_EGENERAL)\<rparr>"

definition ex_la :: server_addr_rec where
  "ex_la = \<lparr>host_port = 443, host_addr = \<lparr>ipaddr_len = 4, ipaddr_ptr = [10, 0, 0, 1]\<rparr>\<rparr>"

definition ex_sa :: server_addr_rec where
  "ex_sa = \<lparr>host_port = 443, host_addr = \<lparr>ipaddr_len = 4, ipaddr_ptr = [192, 168, 0, 1]\<rparr>\<rparr>"

text \<open>
  Connections of the installation: one whose client offered acme-tls/1 for b.example,
  a client hello without SNI and without ALPN, the installation with fallback
  certificates only (every server has \<open>service_unavailable\<close> set), and a connection with
  SNI b.example before and after \<open>tls_core_conn_seen_client_hello\<close>.
\<close>

definition ex_challenge_conn :: conn_rec where
  "ex_challenge_conn =
     tls_conf_conn_set ex_conn
       (extract_client_hello_values
          \<lparr>hello_sni_name = ''b.example'', hello_alpn = [''acme-tls/1'']\<rparr>
          ((cc_new 0)\<lparr>cc_state := TLS_CONN_ST_PRE_HANDSHAKE\<rparr>))"

definition ex_no_sni :: rustls_client_hello where
  "ex_no_sni = \<lparr>hello_sni_name = [], hello_alpn = []\<rparr>"

definition ex_fallback_host :: tls_host where
  "ex_fallback_host = ex_host (\<lambda>s. Some ((ex_sc s)\<lparr>sc_service_unavailable := True\<rparr>))"

definition ex_sni_conn :: conn_rec where
  "ex_sni_conn =
     tls_conf_conn_set ex_conn
       (extract_client_hello_values \<lparr>hello_sni_name = ''b.example'', hello_alpn = []\<rparr>
          ((cc_new 0)\<lparr>cc_state := TLS_CONN_ST_PRE_HANDSHAKE,
                      cc_rustls_connection := Some (Rustls_connection ex_hello_config)\<rparr>))"

definition ex_sni_conn_selected :: conn_rec where
  "ex_sni_conn_selected =
     tls_conf_conn_set ex_conn
       ((cc_new 0)\<lparr>cc_server := Some 1, cc_state := TLS_CONN_ST_PRE_HANDSHAKE,
                   cc_rustls_connection := Some (Rustls_connection ex_rustls_config),
                   cc_client_hello_seen := True, cc_sni_hostname := Some ''b.example'',
                   cc_application_protocol := Some ''http/1.1'',
                   cc_service_unavailable := True\<rparr>)"

section \<open>Listen-address matching: what the comparison looks at\<close>

lemma memcmp_same: "memcmp xs xs n = 0"
proof (induction xs arbitrary: n)
  case Nil
  then show ?case by (cases n) simp_all
next
  case (Cons x xs)
  then show ?case by (cases n) simp_all
qed

lemma memcmp_numeral:
  "memcmp (x # xs) (y # ys) (numeral k) =
     (if x = y then memcmp xs ys (pred_numeral k) else int (unat x) - int (unat y))"
  by (simp add: numeral_eq_Suc)

text \<open>
  An address of the server matches a listen address as soon as port and address length
  agree: the bytes of the server's address are never read.
\<close>

lemma we_listen_on_sa_iff:
  "we_listen_on_sa la sas =
     (\<exists>sa \<in> set sas. host_port la = host_port sa
        \<and> ipaddr_len (host_addr la) = ipaddr_len (host_addr sa))"
  by (induction sas) (auto simp: memcmp_same)

text \<open>
  Claim C9: for a server that is not the base server, \<open>we_listen_on\<close> reports a match
  only if a listen address and an address of the server agree on port, address length
  and address bytes. The code does not do this: with the listen address 10.0.0.1:443
  and a virtual host on 192.168.0.1:443 it returns 1, although the four address bytes
  differ (\<open>memcmp\<close> on the two addresses is not 0). The comparison in the source
  passes the listen address to \<open>memcmp\<close> twice.
\<close>

theorem we_listen_on_matches_other_address:
  "we_listen_on (ex_gc\<lparr>gc_tls_addresses := [ex_la]\<rparr>) [ex_sa] (ex_sc 1) = 1
   \<and> sc_base_server (ex_sc 1) = False
   \<and> host_port ex_la = host_port ex_sa
   \<and> ipaddr_len (host_addr ex_la) = ipaddr_len (host_addr ex_sa)
   \<and> memcmp (ipaddr_ptr (host_addr ex_la)) (ipaddr_ptr (host_addr ex_sa))
        (ipaddr_len (host_addr ex_la)) \<noteq> 0"
  by (simp add: we_listen_on_def ex_la_def ex_sa_def ex_gc_def ex_sc_def memcmp_same
        memcmp_numeral)

section \<open>The request gate\<close>

text \<open>
  Claim C1: \<open>tls_core_request_check\<close> checks in a fixed order and returns the first
  result that applies: DECLINED when TLS is not enabled on the connection; otherwise
  503 when \<open>service_unavailable\<close> is set; otherwise 403 when the client sent no SNI
  and the connection has virtual-host lookup data; otherwise 421 when the server of the
  request is not compatible with the connection; otherwise DECLINED.
\<close>

theorem tls_core_request_check_order:
  "(\<not> TLS_CONN_ST_IS_ENABLED (tls_conf_conn_get (r_connection r))
      \<longrightarrow> tls_core_request_check conf r = DECLINED)
   \<and> (tls_conf_conn_get (r_connection r) = Some cc \<and> TLS_CONN_ST_IS_ENABLED (Some cc) \<longrightarrow>
       (cc_service_unavailable cc \<longrightarrow> tls_core_request_check conf r = 503)
     \<and> (\<not> cc_service_unavailable cc \<and> cc_sni_hostname cc = None
          \<and> c_vhost_lookup_data (r_connection r) \<longrightarrow> tls_core_request_check conf r = 403)
     \<and> (\<not> cc_service_unavailable cc
          \<and> \<not> (cc_sni_hostname cc = None \<and> c_vhost_lookup_data (r_connection r))
          \<and> tls_conn_compatible_for conf cc (r_server r) = 0
          \<longrightarrow> tls_core_request_check conf r = 421)
     \<and> (\<not> cc_service_unavailable cc
          \<and> \<not> (cc_sni_hostname cc = None \<and> c_vhost_lookup_data (r_connection r))
          \<and> tls_conn_compatible_for conf cc (r_server r) \<noteq> 0
          \<longrightarrow> tls_core_request_check conf r = DECLINED))"
  by (simp add: tls_core_request_check_def Let_def HTTP_SERVICE_UNAVAILABLE_def
        HTTP_FORBIDDEN_def HTTP_MISDIRECTED_REQUEST_def)

theorem tls_core_request_check_order_witness:
  "TLS_CONN_ST_IS_ENABLED (Some ((cc_new 0)\<lparr>cc_state := TLS_CONN_ST_TRAFFIC,
                                           cc_service_unavailable := True\<rparr>))
   \<and> tls_core_request_check (\<lambda>s. Some (ex_sc s))
        \<lparr>r_connection = tls_conf_conn_set ex_conn
            ((cc_new 0)\<lparr>cc_state := TLS_CONN_ST_TRAFFIC, cc_service_unavailable := True\<rparr>),
         r_server = Some 0\<rparr> = 503"
  using tls_core_request_check_order
        [of "\<lparr>r_connection = tls_conf_conn_set ex_conn
            ((cc_new 0)\<lparr>cc_state := TLS_CONN_ST_TRAFFIC, cc_service_unavailable := True\<rparr>),
         r_server = Some 0\<rparr>" "\<lambda>s. Some (ex_sc s)"
         "(cc_new 0)\<lparr>cc_state := TLS_CONN_ST_TRAFFIC, cc_service_unavailable := True\<rparr>"]
  by (simp add: TLS_CONN_ST_IS_ENABLED_def tls_conf_conn_set_def tls_conf_conn_get_def cc_new_def)

text \<open>
  Claim C2: for a connection with a selected server \<open>a\<close>, the server \<open>a\<close> itself is
  compatible; another server \<open>b\<close> with configuration \<open>oc\<close> is compatible if and only
  if \<open>oc\<close>'s minimum protocol version is 0 or not above the connection's protocol id,
  and the connection's cipher id is not among \<open>oc\<close>'s suppressed ciphers. The
  certificates of \<open>b\<close> play no part: replacing its certificate specifications and
  certified keys leaves the answer as it is.
\<close>

theorem tls_conn_compatible_for_rule:
  assumes "cc_server cc = Some a"
  shows "tls_conn_compatible_for conf cc (Some a) = 1
    \<and> (a \<noteq> b \<and> conf b = Some oc \<longrightarrow>
         (tls_conn_compatible_for conf cc (Some b) \<noteq> 0) =
         ((sc_tls_protocol_min oc = 0 \<or> sc_tls_protocol_min oc \<le> uint (cc_tls_protocol_id cc))
          \<and> cc_tls_cipher_id cc
              \<notin> (case sc_tls_supp_ciphers oc of None \<Rightarrow> {} | Some supp \<Rightarrow> set supp)))
    \<and> (a \<noteq> b \<and> conf b = Some oc \<longrightarrow>
         tls_conn_compatible_for
           (conf(b \<mapsto> oc\<lparr>sc_cert_specs := specs, sc_certified_keys := keys\<rparr>)) cc (Some b)
         = tls_conn_compatible_for conf cc (Some b))"
proof -
  have below: "(0 < m \<and> uint w < m) = (\<not> (m = 0 \<or> m \<le> uint w))"
    for m :: int and w :: "16 word"
    using uint_ge_0 [of w] by (cases "m = 0"; cases "m \<le> uint w"; simp; linarith)
  show ?thesis
    using assms
    by (auto simp: tls_conn_compatible_for_def tls_util_array_uint16_contains_def below
          split: option.splits)
qed

theorem tls_conn_compatible_for_rule_witness:
  "cc_server ((cc_new 0)\<lparr>cc_tls_protocol_id := 0x0303, cc_tls_cipher_id := 0x1301\<rparr>) = Some 0
   \<and> tls_conn_compatible_for
        (\<lambda>s. Some ((ex_sc s)\<lparr>sc_tls_protocol_min := 0x0304\<rparr>))
        ((cc_new 0)\<lparr>cc_tls_protocol_id := 0x0303, cc_tls_cipher_id := 0x1301\<rparr>) (Some 1) = 0
   \<and> tls_conn_compatible_for
        (\<lambda>s. Some ((ex_sc s)\<lparr>sc_tls_protocol_min := 0x0304\<rparr>))
        ((cc_new 0)\<lparr>cc_tls_protocol_id := 0x0303, cc_tls_cipher_id := 0x1301\<rparr>) (Some 0) = 1"
  using tls_conn_compatible_for_rule
          [of "(cc_new 0)\<lparr>cc_tls_protocol_id := 0x0303, cc_tls_cipher_id := 0x1301\<rparr>" 0
              "\<lambda>s. Some ((ex_sc s)\<lparr>sc_tls_protocol_min := 0x0304\<rparr>)" 1
              "(ex_sc 1)\<lparr>sc_tls_protocol_min := 0x0304\<rparr>"]
  by (simp add: cc_new_def ex_sc_def)

section \<open>The order of cipher suites\<close>

text \<open>
  The first loop of \<open>set_ciphers\<close> collects the preferred ciphers that are allowed, in
  their configured order, and the preferred ciphers the library does not know.
\<close>

lemma set_ciphers_preferred_eq:
  "set_ciphers_preferred proto ciphers pref (ordered, unsupported) =
     ((if filter (\<lambda>p. p \<in> set ciphers) pref = [] then ordered
       else Some ((case ordered of None \<Rightarrow> [] | Some xs \<Rightarrow> xs)
                  @ filter (\<lambda>p. p \<in> set ciphers) pref)),
      (if filter (\<lambda>p. p \<notin> set ciphers \<and> p \<notin> set (supported_cipher_ids proto)) pref = []
       then unsupported
       else Some ((case unsupported of None \<Rightarrow> [] | Some xs \<Rightarrow> xs)
                  @ filter (\<lambda>p. p \<notin> set ciphers \<and> p \<notin> set (supported_cipher_ids proto)) pref)))"
proof (induction pref arbitrary: ordered unsupported)
  case Nil
  then show ?case by simp
next
  case (Cons p pref)
  then show ?case
    by (simp add: tls_util_array_uint16_contains_def tls_proto_is_cipher_supported_def
          array_push_def)
qed

text \<open>
  The second loop appends the allowed ciphers that are not yet in the list, in the order
  of the allowed list.
\<close>

lemma set_ciphers_others_eq:
  "distinct ciphers \<Longrightarrow>
   set_ciphers_others ciphers ordered = ordered @ filter (\<lambda>c. c \<notin> set ordered) ciphers"
proof (induction ciphers arbitrary: ordered)
  case Nil
  then show ?case by simp
next
  case (Cons c ciphers)
  show ?case
  proof (cases "c \<in> set ordered")
    case True
    with Cons show ?thesis by (simp add: tls_util_array_uint16_contains_def)
  next
    case False
    have "filter (\<lambda>x. x \<notin> set (ordered @ [c])) ciphers = filter (\<lambda>x. x \<notin> set ordered) ciphers"
      using Cons.prems by (intro filter_cong) auto
    moreover have "set_ciphers_others (c # ciphers) ordered =
        (ordered @ [c]) @ filter (\<lambda>x. x \<notin> set (ordered @ [c])) ciphers"
      using False Cons.IH [of "ordered @ [c]"] Cons.prems
      by (simp add: tls_util_array_uint16_contains_def)
    ultimately show ?thesis using False by simp
  qed
qed

lemma filter_not_in_preferred:
  "filter (\<lambda>c. c \<notin> set (filter (\<lambda>p. p \<in> set allowed) pref)) allowed =
   filter (\<lambda>c. c \<notin> set pref) allowed"
  by (intro filter_cong) auto

lemma set_ciphers_configured:
  assumes "sc_tls_supp_ciphers sc = Some supp"
    and "distinct (supported_cipher_ids (gc_proto (sc_global sc)))"
    and "allowed = filter (\<lambda>c. c \<notin> set supp) (supported_cipher_ids (gc_proto (sc_global sc)))"
    and "filter (\<lambda>p. p \<in> set allowed) (sc_tls_pref_ciphers sc) \<noteq> []"
  shows "set_ciphers lib rustls_error sc builder =
     (let ciphers = filter (\<lambda>p. p \<in> set allowed) (sc_tls_pref_ciphers sc)
                    @ filter (\<lambda>c. c \<notin> set (sc_tls_pref_ciphers sc)) allowed
      in if lib \<noteq> RUSTLS_RESULT_OK
         then Some \<lparr>sr_status = rustls_error lib, sr_builder = builder,
                    sr_configured = Some ciphers, sr_warned = []\<rparr>
         else Some \<lparr>sr_status = APR_SUCCESS,
                    sr_builder = builder\<lparr>rc_ciphersuites := Some ciphers\<rparr>,
                    sr_configured = Some ciphers,
                    sr_warned = filter (\<lambda>p. p \<notin> set (supported_cipher_ids (gc_proto (sc_global sc))))
                                  (sc_tls_pref_ciphers sc)\<rparr>)"
proof -
  let ?proto = "gc_proto (sc_global sc)"
  let ?pref = "sc_tls_pref_ciphers sc"
  let ?warned = "filter (\<lambda>p. p \<notin> set (supported_cipher_ids ?proto)) ?pref"
  have d: "distinct allowed" using assms(2,3) by simp
  have rem: "tls_util_array_uint16_remove (supported_cipher_ids ?proto) supp = allowed"
    by (simp add: tls_util_array_uint16_remove_def tls_util_array_uint16_contains_def assms(3))
  have sub: "(\<lambda>p. p \<notin> set allowed \<and> p \<notin> set (supported_cipher_ids ?proto))
             = (\<lambda>p. p \<notin> set (supported_cipher_ids ?proto))"
    using assms(3) by auto
  have pre: "set_ciphers_preferred ?proto allowed ?pref (None, None) =
      (Some (filter (\<lambda>p. p \<in> set allowed) ?pref),
       if ?warned = [] then None else Some ?warned)"
    using assms(4) by (simp add: set_ciphers_preferred_eq sub)
  have oth: "set_ciphers_others allowed (filter (\<lambda>p. p \<in> set allowed) ?pref) =
      filter (\<lambda>p. p \<in> set allowed) ?pref @ filter (\<lambda>c. c \<notin> set ?pref) allowed"
    by (simp only: set_ciphers_others_eq [OF d] filter_not_in_preferred)
  show ?thesis
    using assms(1)
    by (simp add: set_ciphers_def rem pre oth Let_def)
qed


text \<open>
  Claim C7: \<open>set_ciphers\<close> computes \<open>allowed\<close> as the supported ciphers without the
  suppressed ones. If a preferred cipher is among the allowed ones, the list handed to
  the library is the preferred ciphers that are allowed, in their configured order,
  followed by the other allowed ciphers in the library's order; when the library
  accepts the list, it is the builder's cipher list. The preferred ciphers that the
  library does not know are the ones warned about, and dropping them from the
  preference list gives the same list. The supported ciphers of the library are a set:
  no id is listed twice.
\<close>

theorem set_ciphers_preferred_first:
  assumes "sc_tls_supp_ciphers sc = Some supp"
    and "distinct (supported_cipher_ids (gc_proto (sc_global sc)))"
    and "allowed = filter (\<lambda>c. c \<notin> set supp) (supported_cipher_ids (gc_proto (sc_global sc)))"
    and "\<exists>p \<in> set (sc_tls_pref_ciphers sc). p \<in> set allowed"
  shows "map_option sr_configured (set_ciphers lib rustls_error sc builder) =
           Some (Some (filter (\<lambda>p. p \<in> set allowed) (sc_tls_pref_ciphers sc)
                       @ filter (\<lambda>c. c \<notin> set (sc_tls_pref_ciphers sc)) allowed))
     \<and> (lib = RUSTLS_RESULT_OK \<longrightarrow>
          map_option sr_status (set_ciphers lib rustls_error sc builder) = Some APR_SUCCESS
        \<and> map_option (\<lambda>res. rc_ciphersuites (sr_builder res))
             (set_ciphers lib rustls_error sc builder) =
           Some (Some (filter (\<lambda>p. p \<in> set allowed) (sc_tls_pref_ciphers sc)
                       @ filter (\<lambda>c. c \<notin> set (sc_tls_pref_ciphers sc)) allowed))
        \<and> map_option sr_warned (set_ciphers lib rustls_error sc builder) =
           Some (filter (\<lambda>p. p \<notin> set (supported_cipher_ids (gc_proto (sc_global sc))))
                   (sc_tls_pref_ciphers sc)))
     \<and> map_option sr_configured
          (set_ciphers lib rustls_error
             (sc\<lparr>sc_tls_pref_ciphers :=
                   filter (\<lambda>p. p \<in> set (supported_cipher_ids (gc_proto (sc_global sc))))
                     (sc_tls_pref_ciphers sc)\<rparr>) builder) =
        map_option sr_configured (set_ciphers lib rustls_error sc builder)"
proof -
  let ?supported = "supported_cipher_ids (gc_proto (sc_global sc))"
  let ?pref = "sc_tls_pref_ciphers sc"
  let ?known = "filter (\<lambda>p. p \<in> set ?supported) ?pref"
  let ?sc' = "sc\<lparr>sc_tls_pref_ciphers := ?known\<rparr>"
  have ne: "filter (\<lambda>p. p \<in> set allowed) ?pref \<noteq> []"
    using assms(4) by (simp add: filter_empty_conv)
  have sub: "set allowed \<subseteq> set ?supported" using assms(3) by auto
  have f1: "filter (\<lambda>p. p \<in> set allowed) ?known = filter (\<lambda>p. p \<in> set allowed) ?pref"
    using sub by (auto simp: filter_filter intro: filter_cong)
  have f2: "filter (\<lambda>c. c \<notin> set ?known) allowed = filter (\<lambda>c. c \<notin> set ?pref) allowed"
    using sub by (intro filter_cong) auto
  have ne': "filter (\<lambda>p. p \<in> set allowed) (sc_tls_pref_ciphers ?sc') \<noteq> []"
    using ne f1 by simp
  have a1: "sc_tls_supp_ciphers ?sc' = Some supp" using assms(1) by simp
  have a2: "distinct (supported_cipher_ids (gc_proto (sc_global ?sc')))" using assms(2) by simp
  have a3: "allowed = filter (\<lambda>c. c \<notin> set supp) (supported_cipher_ids (gc_proto (sc_global ?sc')))"
    using assms(3) by simp
  note here = set_ciphers_configured [OF assms(1) assms(2) assms(3) ne, of lib rustls_error builder]
  note there = set_ciphers_configured [OF a1 a2 a3 ne', of lib rustls_error builder]
  have c1: "map_option sr_configured (set_ciphers lib rustls_error sc builder) =
           Some (Some (filter (\<lambda>p. p \<in> set allowed) ?pref @ filter (\<lambda>c. c \<notin> set ?pref) allowed))"
    by (simp add: here Let_def)
  have c2: "map_option sr_configured (set_ciphers lib rustls_error ?sc' builder) =
           Some (Some (filter (\<lambda>p. p \<in> set allowed) ?pref @ filter (\<lambda>c. c \<notin> set ?pref) allowed))"
    using f1 f2 by (simp add: there Let_def)
  have c3: "map_option sr_status (set_ciphers lib rustls_error sc builder) = Some APR_SUCCESS
        \<and> map_option (\<lambda>res. rc_ciphersuites (sr_builder res))
             (set_ciphers lib rustls_error sc builder) =
           Some (Some (filter (\<lambda>p. p \<in> set allowed) ?pref @ filter (\<lambda>c. c \<notin> set ?pref) allowed))
        \<and> map_option sr_warned (set_ciphers lib rustls_error sc builder) =
           Some (filter (\<lambda>p. p \<notin> set ?supported) ?pref)"
    if "lib = RUSTLS_RESULT_OK"
    using here that by (simp add: Let_def)
  have c4: "map_option sr_configured (set_ciphers lib rustls_error ?sc' builder) =
        map_option sr_configured (set_ciphers lib rustls_error sc builder)"
    by (simp only: c1 c2)
  from c1 c3 c4 show ?thesis by blast
qed

theorem set_ciphers_preferred_first_witness:
  "map_option sr_configured
     (set_ciphers RUSTLS_RESULT_OK (\<lambda>rr. APR_EGENERAL)
        ((ex_sc 1)\<lparr>sc_tls_supp_ciphers := Some [0x1302],
                    sc_tls_pref_ciphers := [0xC02B, 0x9999, 0x1303]\<rparr>) ex_rustls_config)
   = Some (Some [0xC02B, 0x1303, 0x1301])
   \<and> map_option sr_warned
     (set_ciphers RUSTLS_RESULT_OK (\<lambda>rr. APR_EGENERAL)
        ((ex_sc 1)\<lparr>sc_tls_supp_ciphers := Some [0x1302],
                    sc_tls_pref_ciphers := [0xC02B, 0x9999, 0x1303]\<rparr>) ex_rustls_config)
   = Some [0x9999]"
  using set_ciphers_preferred_first
          [of "(ex_sc 1)\<lparr>sc_tls_supp_ciphers := Some [0x1302],
                    sc_tls_pref_ciphers := [0xC02B, 0x9999, 0x1303]\<rparr>" "[0x1302]"
               "[0x1301, 0x1303, 0xC02B]" RUSTLS_RESULT_OK "\<lambda>rr. APR_EGENERAL" ex_rustls_config]
  by (simp add: ex_sc_def ex_gc_def ex_proto_def)


section \<open>After the handshake\<close>

text \<open>
  Claim C5: when client authentication is required on the selected server and the peer
  presented no certificate, \<open>tls_core_conn_post_handshake\<close> returns a
  connection-aborted error. The code does not do this: on a connection to a server with
  client authentication \<open>required\<close>, after a handshake without peer certificates, where
  \<open>tls_var_handshake_done\<close> succeeds, the call returns \<open>APR_SUCCESS\<close>. The status
  \<open>APR_ECONNABORTED\<close> is assigned and then overwritten by the status of
  \<open>tls_var_handshake_done\<close>.
\<close>

theorem post_handshake_required_client_cert_missing:
  "(case tls_core_conn_post_handshake
           (ex_host (\<lambda>s. Some ((ex_sc s)\<lparr>sc_client_auth := TLS_CLIENT_AUTH_REQUIRED,
                                          sc_client_ca := Some ''ca.pem''\<rparr>)))
           ex_handshake_host
           (tls_conf_conn_set ex_conn ((cc_new 0)\<lparr>cc_state := TLS_CONN_ST_HANDSHAKE\<rparr>)) of
      Done (rv, c') \<Rightarrow>
        rv = APR_SUCCESS \<and> map_option cc_peer_certs (tls_conf_conn_get c') = Some None
    | Spinning c' \<Rightarrow> False
    | Crashed \<Rightarrow> False)"
  by (simp add: tls_core_conn_post_handshake_def ex_host_def ex_sc_def ex_handshake_host_def
        ex_conn_def cc_new_def tls_conf_conn_set_def tls_conf_conn_get_def Let_def)

section \<open>Before the client hello was seen\<close>

text \<open>
  Claim C10: on a connection whose \<open>client_hello_seen\<close> flag is not set,
  \<open>tls_core_conn_seen_client_hello\<close> returns \<open>APR_SUCCESS\<close> and leaves the
  connection as it was (the selected server, the probe session, \<open>service_unavailable\<close>
  and every other field), without any call into the host or the TLS library: no
  session is built. The connection has a connection record and its server a module
  configuration, as \<open>tls_core_init\<close> asserts for every server.
\<close>

theorem seen_client_hello_without_hello_unchanged:
  assumes "tls_conf_conn_get c = Some cc"
    and "cc_server cc = Some srv"
    and "th_conf host srv = Some sc"
    and "\<not> cc_client_hello_seen cc"
  shows "tls_core_conn_seen_client_hello fuel host hh c = Done (APR_SUCCESS, c, [])"
  using assms by (simp add: tls_core_conn_seen_client_hello_def)



theorem seen_client_hello_without_hello_unchanged_witness:
  "tls_core_conn_seen_client_hello 0 (ex_host (\<lambda>s. Some (ex_sc s))) ex_hello_host
     (tls_conf_conn_set ex_conn ((cc_new 0)\<lparr>cc_state := TLS_CONN_ST_PRE_HANDSHAKE\<rparr>))
   = Done (APR_SUCCESS,
           tls_conf_conn_set ex_conn ((cc_new 0)\<lparr>cc_state := TLS_CONN_ST_PRE_HANDSHAKE\<rparr>), [])"
  using seen_client_hello_without_hello_unchanged
          [of "tls_conf_conn_set ex_conn ((cc_new 0)\<lparr>cc_state := TLS_CONN_ST_PRE_HANDSHAKE\<rparr>)"
               "(cc_new 0)\<lparr>cc_state := TLS_CONN_ST_PRE_HANDSHAKE\<rparr>" 0
               "ex_host (\<lambda>s. Some (ex_sc s))" "ex_sc 0" 0 ex_hello_host]
  by (simp add: tls_conf_conn_set_def tls_conf_conn_get_def cc_new_def ex_host_def)





section \<open>The endless blocks at cleanup\<close>

text \<open>
  With \<open>rr\<close> OK the block at \<open>cleanup\<close> is passed and the call returns, whatever
  the fuel. With \<open>rr\<close> not OK no amount of fuel makes the call return: it stays in
  the block, and after the first pass its state no longer changes.
\<close>

lemma tls_core_conn_init_cleanup_OK:
  "tls_core_conn_init_cleanup fuel RUSTLS_RESULT_OK cc c =
     Done (if TLS_CONN_ST_IS_ENABLED (Some cc) then OK else DECLINED, tls_conf_conn_set c cc)"
  by (cases fuel) simp_all

lemma tls_core_conn_init_cleanup_failed:
  "rr \<noteq> RUSTLS_RESULT_OK \<Longrightarrow>
   tls_core_conn_init_cleanup fuel rr cc c =
     Spinning (if fuel = 0 then tls_conf_conn_set c cc
               else tls_conf_conn_set (c\<lparr>c_aborted := True\<rparr>)
                      (cc\<lparr>cc_state := TLS_CONN_ST_DISABLED\<rparr>))"
proof (induction fuel arbitrary: cc c)
  case 0
  then show ?case by simp
next
  case (Suc fuel)
  then show ?case by (cases fuel) simp_all
qed

lemma select_application_protocol_cleanup_OK:
  "select_application_protocol_cleanup fuel rustls_error RUSTLS_RESULT_OK rv c = Done (rv, c)"
  by (cases fuel) simp_all

lemma select_application_protocol_cleanup_failed:
  "rr \<noteq> RUSTLS_RESULT_OK \<Longrightarrow>
   select_application_protocol_cleanup fuel rustls_error rr rv c =
     Spinning (if fuel = 0 then c else c\<lparr>c_aborted := True\<rparr>)"
proof (induction fuel arbitrary: rv c)
  case 0
  then show ?case by simp
next
  case (Suc fuel)
  then show ?case by (cases fuel) simp_all
qed

text \<open>
  What \<open>select_application_protocol\<close> leaves alone: the state and the server of the
  connection; \<open>service_unavailable\<close> is only ever set.
\<close>

lemma select_application_protocol_body_keeps:
  assumes "select_application_protocol_body hh cc s builder = (rr, rv, cc', builder', calls)"
  shows "cc_state cc' = cc_state cc \<and> cc_server cc' = cc_server cc
         \<and> (cc_service_unavailable cc \<longrightarrow> cc_service_unavailable cc')"
  using assms
  by (auto simp: select_application_protocol_body_def use_local_key_def Let_def
        split: option.splits if_splits prod.splits sum.splits)

lemma select_application_protocol_keeps:
  assumes "tls_conf_conn_get c = Some cc"
  shows "case select_application_protocol fuel host hh c s builder of
           Done (rv, c', builder', calls) \<Rightarrow>
             (\<exists>cc'. tls_conf_conn_get c' = Some cc' \<and> cc_state cc' = cc_state cc
                \<and> cc_server cc' = cc_server cc
                \<and> (cc_service_unavailable cc \<longrightarrow> cc_service_unavailable cc'))
         | Spinning c' \<Rightarrow>
             (\<exists>cc'. tls_conf_conn_get c' = Some cc' \<and> cc_state cc' = cc_state cc
                \<and> cc_server cc' = cc_server cc
                \<and> (cc_service_unavailable cc \<longrightarrow> cc_service_unavailable cc'))
         | Crashed \<Rightarrow> False"
proof -
  obtain rr rv cc' builder' calls where
    body: "select_application_protocol_body hh cc s builder = (rr, rv, cc', builder', calls)"
    by (metis prod_cases5)
  note keeps = select_application_protocol_body_keeps [OF body]
  show ?thesis
  proof (cases "rr = RUSTLS_RESULT_OK")
    case True
    then show ?thesis
      using assms body keeps
      by (simp add: select_application_protocol_def select_application_protocol_cleanup_OK
            tls_conf_conn_get_def tls_conf_conn_set_def)
  next
    case False
    then show ?thesis
      using assms body keeps
      by (simp add: select_application_protocol_def
            select_application_protocol_cleanup_failed
            tls_conf_conn_get_def tls_conf_conn_set_def)
  qed
qed


lemma ap_vhost_iterate_find_vhost:
  "ap_vhost_iterate_given_conn (find_vhost name_matches sni) vhosts cc =
     (case List.find (name_matches sni) vhosts of
        None \<Rightarrow> (0, cc)
      | Some s \<Rightarrow> (1, cc\<lparr>cc_server := Some s\<rparr>))"
  by (induction vhosts) (simp_all add: find_vhost_def)

lemma seen_client_hello_sni_keeps:
  "seen_client_hello_sni hh initial_sc cc = Inr (sni_match, cc1) \<Longrightarrow>
     cc_state cc1 = cc_state cc \<and> cc_service_unavailable cc1 = cc_service_unavailable cc"
  "seen_client_hello_sni hh initial_sc cc = Inl cc1 \<Longrightarrow>
     cc_state cc1 = cc_state cc \<and> cc_service_unavailable cc1 = cc_service_unavailable cc"
  by (auto simp: seen_client_hello_sni_def ap_vhost_iterate_find_vhost
        split: option.splits if_splits)

lemma seen_client_hello_sni_matched:
  assumes "cc_sni_hostname cc = Some name"
    and "(\<exists>s \<in> set (hh_vhosts hh). hh_name_matches hh name s)
         \<or> hh_name_matches hh name (hh_ap_server_conf hh)"
  shows "\<exists>cc1. seen_client_hello_sni hh initial_sc cc = Inr (True, cc1)"
  using assms
  by (auto simp: seen_client_hello_sni_def ap_vhost_iterate_find_vhost find_None_iff
        split: option.splits)

lemma seen_client_hello_session_keeps:
  assumes "seen_client_hello_session host hh c cc builder calls = (rv, c', calls')"
  shows "\<exists>cc'. tls_conf_conn_get c' = Some cc' \<and> cc_state cc' = cc_state cc
           \<and> cc_server cc' = cc_server cc
           \<and> cc_service_unavailable cc' = cc_service_unavailable cc"
  using assms
  by (auto simp: seen_client_hello_session_def Let_def tls_conf_conn_get_def
        tls_conf_conn_set_def split: prod.splits if_splits)

lemma seen_client_hello_reinit_keeps:
  assumes "seen_client_hello_reinit fuel host hh c initial_sc sni_match cc1 = res"
    and "res = Done (rv, c', calls) \<or> res = Spinning c'"
  shows "\<exists>cc' srv sc. tls_conf_conn_get c' = Some cc' \<and> cc_state cc' = cc_state cc1
           \<and> cc_server cc' = Some srv \<and> cc_server cc1 = Some srv \<and> th_conf host srv = Some sc
           \<and> (sni_match \<and> sc_service_unavailable sc \<longrightarrow> cc_service_unavailable cc')"
proof -
  from assms obtain srv where srv: "cc_server cc1 = Some srv"
    by (auto simp: seen_client_hello_reinit_def split: option.splits)
  from assms srv obtain sc where sc: "th_conf host srv = Some sc"
    by (auto simp: seen_client_hello_reinit_def split: option.splits)
  let ?cc2 = "cc1\<lparr>cc_service_unavailable :=
                    (if sni_match then sc_service_unavailable sc else False)\<rparr>"
  let ?c2 = "tls_conf_conn_set c ?cc2"
  let ?builder = "case sc_rustls_config sc of Some cfg \<Rightarrow> cfg
                  | None \<Rightarrow> the (sc_rustls_config initial_sc)"
  have get2: "tls_conf_conn_get ?c2 = Some ?cc2"
    by (simp add: tls_conf_conn_get_def tls_conf_conn_set_def)
  note sel = select_application_protocol_keeps [OF get2, of fuel host hh srv ?builder]
  show ?thesis
  proof (cases "(sc_rustls_config sc = None \<and> sc_rustls_config initial_sc = None)
                \<or> \<not> hh_builder_from_config hh")
    case True
    then have "c' = ?c2"
      using assms srv sc
      by (auto simp: seen_client_hello_reinit_def Let_def split: if_splits)
    then show ?thesis using srv sc get2 by auto
  next
    case False
    show ?thesis
    proof (cases "select_application_protocol fuel host hh ?c2 srv ?builder")
      case (Done x)
      obtain rv2 c3 builder3 calls2 where x: "x = (rv2, c3, builder3, calls2)"
        by (cases x) auto
      from sel Done x obtain cc3 where cc3: "tls_conf_conn_get c3 = Some cc3"
        "cc_state cc3 = cc_state ?cc2" "cc_server cc3 = cc_server ?cc2"
        "cc_service_unavailable ?cc2 \<longrightarrow> cc_service_unavailable cc3"
        by auto
      show ?thesis
      proof (cases "rv2 = APR_SUCCESS")
        case True
        obtain rv4 c4 calls4 where ses:
          "seen_client_hello_session host hh c3 cc3 builder3 (Call_builder_from_config # calls2)
             = (rv4, c4, calls4)"
          by (cases "seen_client_hello_session host hh c3 cc3 builder3
                       (Call_builder_from_config # calls2)") auto
        have "res = Done (rv4, c4, calls4)"
          using assms(1) srv sc False Done x True cc3(1) ses
          by (auto simp: seen_client_hello_reinit_def Let_def)
        with assms(2) have "c' = c4" by auto
        with seen_client_hello_session_keeps [OF ses] cc3 srv sc show ?thesis by auto
      next
        case False
        have "res = Done (rv2, c3, Call_builder_from_config # calls2 @ [Call_builder_free])"
          using assms(1) srv sc \<open>\<not> ((sc_rustls_config sc = None \<and> sc_rustls_config initial_sc = None)
                \<or> \<not> hh_builder_from_config hh)\<close> Done x False
          by (auto simp: seen_client_hello_reinit_def Let_def)
        with assms(2) have "c' = c3" by auto
        with cc3 srv sc show ?thesis by auto
      qed
    next
      case (Spinning c3)
      from sel Spinning obtain cc3 where cc3: "tls_conf_conn_get c3 = Some cc3"
        "cc_state cc3 = cc_state ?cc2" "cc_server cc3 = cc_server ?cc2"
        "cc_service_unavailable ?cc2 \<longrightarrow> cc_service_unavailable cc3"
        by auto
      have "res = Spinning c3"
        using assms(1) srv sc False Spinning
        by (auto simp: seen_client_hello_reinit_def Let_def)
      with assms(2) have "c' = c3" by auto
      with cc3 srv sc show ?thesis by auto
    next
      case Crashed
      with sel show ?thesis by simp
    qed
  qed
qed


lemma server_conf_setup_cleanup_OK:
  "server_conf_setup_cleanup fuel rustls_error RUSTLS_RESULT_OK rv sc = Done (rv, sc)"
  by (cases fuel) simp_all

lemma add_file_specs_none: "add_file_specs specs [] key_files = specs"
  by (simp add: add_file_specs_def)

lemma complete_cert_specs_none:
  assumes "\<not> sc_base_server sc" and "sc_cert_specs sc = []"
    and "fst add_cert_files = []" and "fst add_fallback_cert_files = []"
  shows "complete_cert_specs add_cert_files add_fallback_cert_files sc =
           ([], sc, Log_no_certificates_error)"
  using assms by (simp add: complete_cert_specs_def add_file_specs_none Let_def)

lemma set_ciphers_status_OK:
  assumes "sc_tls_supp_ciphers sc = Some supp"
  shows "\<exists>res. set_ciphers RUSTLS_RESULT_OK rustls_error sc builder = Some res
           \<and> sr_status res = APR_SUCCESS"
  using assms by (simp add: set_ciphers_def Let_def split: prod.splits)

lemma server_conf_setup_finish_OK:
  assumes "sc_tls_supp_ciphers sc = Some supp"
    and "h_set_ciphersuites h = RUSTLS_RESULT_OK"
    and "h_set_ignore_client_order h = RUSTLS_RESULT_OK"
    and "h_set_protocols h = RUSTLS_RESULT_OK"
    and "h_cache_init_server h = APR_SUCCESS"
    and "h_builder_build h"
  shows "\<exists>cfg. server_conf_setup_finish h sc builder =
           Some (RUSTLS_RESULT_OK, APR_SUCCESS, sc\<lparr>sc_rustls_config := Some cfg\<rparr>)"
proof -
  obtain res where "set_ciphers RUSTLS_RESULT_OK (h_rustls_error h) sc builder = Some res"
    and "sr_status res = APR_SUCCESS"
    using set_ciphers_status_OK [OF assms(1)] by blast
  then show ?thesis
    using assms(2-6) by (simp add: server_conf_setup_finish_def) blast
qed

section \<open>ALPN and the challenge certificate\<close>

text \<open>
  Claim C8, as amended: on a connection where the host's protocol selection picks a
  protocol that differs from the current one and is neither http/1.1 nor h2, if the
  protocol switch and the narrowing of the builder's ALPN list succeed and the
  challenge answerer returns PEM data of a certificate and a key for the SNI host name,
  then: when \<open>tls_cert_load_cert_key\<close> loads a certified key from that data,
  \<open>select_application_protocol\<close> returns \<open>APR_SUCCESS\<close>, \<open>cc.local_keys\<close> holds
  exactly that key and \<open>cc.service_unavailable\<close> is set; when loading fails, the
  error is returned and neither \<open>cc.local_keys\<close> nor \<open>cc.service_unavailable\<close> is
  changed.
\<close>

theorem select_application_protocol_challenge:
  assumes "tls_conf_conn_get c = Some cc"
    and "cc_alpn cc = Some alpn" and "alpn \<noteq> []"
    and "hh_select_protocol hh s alpn = Some proposed"
    and "proposed \<noteq> hh_get_protocol hh"
    and "proposed \<noteq> ''h2''" and "proposed \<noteq> ''http/1.1''"
    and "hh_switch_protocol hh = APR_SUCCESS"
    and "hh_set_protocols hh = RUSTLS_RESULT_OK"
    and "hh_answer_challenge hh (cc_sni_hostname cc) = Some (cert, pkey)"
  shows "(hh_load_cert_key hh \<lparr>cert_file = None, pkey_file = None,
                               cert_pem = Some cert, pkey_pem = Some pkey\<rparr> = Inr ckey
          \<longrightarrow> select_application_protocol fuel host hh c s builder =
               Done (APR_SUCCESS,
                     tls_conf_conn_set c
                       (cc\<lparr>cc_application_protocol := Some proposed,
                           cc_local_keys := Some [ckey],
                           cc_service_unavailable := True\<rparr>),
                     builder\<lparr>rc_protocols := [proposed]\<rparr>,
                     [Call_switch_protocol (cc_server cc) proposed, Call_set_protocols proposed,
                      Call_answer_challenge (cc_sni_hostname cc), Call_load_cert_key]))
     \<and> (hh_load_cert_key hh \<lparr>cert_file = None, pkey_file = None,
                               cert_pem = Some cert, pkey_pem = Some pkey\<rparr> = Inl rv
          \<and> rv \<noteq> APR_SUCCESS
          \<longrightarrow> select_application_protocol fuel host hh c s builder =
               Done (rv,
                     tls_conf_conn_set c (cc\<lparr>cc_application_protocol := Some proposed\<rparr>),
                     builder\<lparr>rc_protocols := [proposed]\<rparr>,
                     [Call_switch_protocol (cc_server cc) proposed, Call_set_protocols proposed,
                      Call_answer_challenge (cc_sni_hostname cc), Call_load_cert_key]))"
  using assms
  by (simp add: select_application_protocol_def select_application_protocol_body_def
        use_local_key_def select_application_protocol_cleanup_OK Let_def)

theorem select_application_protocol_challenge_witness:
  "(case select_application_protocol 0 (ex_host (\<lambda>s. Some (ex_sc s))) ex_hello_host
           ex_challenge_conn 1 ex_rustls_config of
      Done (rv, c', builder', calls) \<Rightarrow>
        rv = APR_SUCCESS
        \<and> map_option cc_local_keys (tls_conf_conn_get c') = Some (Some [42])
        \<and> map_option cc_service_unavailable (tls_conf_conn_get c') = Some True
    | Spinning c' \<Rightarrow> False
    | Crashed \<Rightarrow> False)"
proof -
  let ?cc = "extract_client_hello_values
          \<lparr>hello_sni_name = ''b.example'', hello_alpn = [''acme-tls/1'']\<rparr>
          ((cc_new 0)\<lparr>cc_state := TLS_CONN_ST_PRE_HANDSHAKE\<rparr>)"
  have "hh_load_cert_key ex_hello_host
          \<lparr>cert_file = None, pkey_file = None,
             cert_pem = Some ''CERT PEM'', pkey_pem = Some ''KEY PEM''\<rparr> = Inr 42
        \<longrightarrow> select_application_protocol 0 (ex_host (\<lambda>s. Some (ex_sc s))) ex_hello_host
           ex_challenge_conn 1 ex_rustls_config =
     Done (APR_SUCCESS,
           tls_conf_conn_set ex_challenge_conn
             (?cc\<lparr>cc_application_protocol := Some ''acme-tls/1'',
                 cc_local_keys := Some [42],
                 cc_service_unavailable := True\<rparr>),
           ex_rustls_config\<lparr>rc_protocols := [''acme-tls/1'']\<rparr>,
           [Call_switch_protocol (cc_server ?cc) ''acme-tls/1'', Call_set_protocols ''acme-tls/1'',
            Call_answer_challenge (cc_sni_hostname ?cc), Call_load_cert_key])"
    by (rule select_application_protocol_challenge
          [where alpn = "[''acme-tls/1'']" and cert = "''CERT PEM''"
                   and pkey = "''KEY PEM''" and cc = ?cc, THEN conjunct1])
       (simp_all add: ex_challenge_conn_def tls_conf_conn_get_def tls_conf_conn_set_def
          extract_client_hello_values_def ex_hello_host_def cc_new_def)
  then show ?thesis
    by (simp add: tls_conf_conn_get_def tls_conf_conn_set_def ex_hello_host_def)
qed

text \<open>
  Claim C8 as stated does not hold: the answerer returns a pair for b.example, but
  loading it fails. The call returns the error, \<open>cc.local_keys\<close> stays NULL and
  \<open>cc.service_unavailable\<close> stays unset, although the protocol was switched to
  acme-tls/1.
\<close>

theorem select_application_protocol_challenge_load_fails:
  "hh_answer_challenge (ex_hello_host\<lparr>hh_load_cert_key := (\<lambda>spec. Inl APR_EGENERAL)\<rparr>)
      (Some ''b.example'') = Some (''CERT PEM'', ''KEY PEM'')
   \<and> (case select_application_protocol 0 (ex_host (\<lambda>s. Some (ex_sc s)))
           (ex_hello_host\<lparr>hh_load_cert_key := (\<lambda>spec. Inl APR_EGENERAL)\<rparr>)
           ex_challenge_conn 1 ex_rustls_config of
      Done (rv, c', builder', calls) \<Rightarrow>
        rv = APR_EGENERAL
        \<and> map_option cc_application_protocol (tls_conf_conn_get c') = Some (Some ''acme-tls/1'')
        \<and> map_option cc_local_keys (tls_conf_conn_get c') = Some None
        \<and> map_option cc_service_unavailable (tls_conf_conn_get c') = Some False
    | Spinning c' \<Rightarrow> False
    | Crashed \<Rightarrow> False)"
  by (simp add: select_application_protocol_def select_application_protocol_body_def
        use_local_key_def Let_def ex_challenge_conn_def tls_conf_conn_get_def
        tls_conf_conn_set_def extract_client_hello_values_def ex_hello_host_def cc_new_def
        ex_conn_def)


section \<open>A server without certificates\<close>

text \<open>
  What \<open>server_conf_setup\<close> does for a server that is not the base server, has no
  configured certificate specifications, gets none from other modules and gets no
  fallback either: \<open>complete_cert_specs\<close> finds the case, logs an error and returns the
  empty list, and when the other steps succeed (client verifier, builder, protocol
  versions, ciphers, ALPN, session cache, build) \<open>server_conf_setup\<close> returns
  \<open>APR_SUCCESS\<close> with an empty list of certified keys and a built configuration.
\<close>

lemma server_conf_setup_empty_specs:
  assumes "\<not> sc_base_server sc" and "sc_cert_specs sc = []"
    and "fst (h_add_cert_files h) = []" and "fst (h_add_fallback_cert_files h) = []"
    and "sc_client_auth sc = TLS_CLIENT_AUTH_NONE
         \<or> (sc_client_ca sc \<noteq> None \<and> h_verifiers_get h = APR_SUCCESS)"
    and "h_builder_new h"
    and "sc_tls_protocol_min sc \<le> 0
         \<or> (tls_proto_create_versions_plus (gc_proto (sc_global sc))
               (word_of_int (sc_tls_protocol_min sc)) \<noteq> []
             \<and> h_set_versions h = RUSTLS_RESULT_OK)"
    and "sc_tls_supp_ciphers sc = Some supp"
    and "h_set_ciphersuites h = RUSTLS_RESULT_OK"
    and "h_set_ignore_client_order h = RUSTLS_RESULT_OK"
    and "h_set_protocols h = RUSTLS_RESULT_OK"
    and "h_cache_init_server h = APR_SUCCESS"
    and "h_builder_build h"
  shows "complete_cert_specs (h_add_cert_files h) (h_add_fallback_cert_files h) sc =
           ([], sc, Log_no_certificates_error)
     \<and> (\<exists>cfg. server_conf_setup fuel h sc =
           Done (APR_SUCCESS, sc\<lparr>sc_certified_keys := [], sc_rustls_config := Some cfg\<rparr>))"
proof -
  have specs: "complete_cert_specs (h_add_cert_files h) (h_add_fallback_cert_files h) sc =
           ([], sc, Log_no_certificates_error)"
    using assms(1-4) by (rule complete_cert_specs_none)
  have "\<exists>builder. server_conf_setup_builder h sc = Inr builder"
    using assms(5,6)
    by (cases "sc_client_auth sc = TLS_CLIENT_AUTH_NONE")
       (auto simp: server_conf_setup_builder_def)
  then obtain builder where builder: "server_conf_setup_builder h sc = Inr builder" ..
  let ?sc = "sc\<lparr>sc_certified_keys := []\<rparr>"
  have supp: "sc_tls_supp_ciphers ?sc = Some supp" using assms(8) by simp
  have fin: "\<exists>cfg. server_conf_setup_finish h ?sc b =
           Some (RUSTLS_RESULT_OK, APR_SUCCESS, ?sc\<lparr>sc_rustls_config := Some cfg\<rparr>)" for b
    using server_conf_setup_finish_OK [OF supp assms(9-13)] .
  have "\<exists>cfg. server_conf_setup_versions h ?sc b =
           Some (RUSTLS_RESULT_OK, APR_SUCCESS, ?sc\<lparr>sc_rustls_config := Some cfg\<rparr>)" for b
    using assms(7) fin by (auto simp: server_conf_setup_versions_def Let_def)
  then obtain cfg where
    "server_conf_setup_versions h ?sc (builder\<lparr>rc_hello_callback := Select_certified_key\<rparr>) =
           Some (RUSTLS_RESULT_OK, APR_SUCCESS, ?sc\<lparr>sc_rustls_config := Some cfg\<rparr>)"
    by blast
  then have "server_conf_setup fuel h sc =
           Done (APR_SUCCESS, sc\<lparr>sc_certified_keys := [], sc_rustls_config := Some cfg\<rparr>)"
    by (simp add: server_conf_setup_def server_conf_setup_body_def builder specs
          server_conf_setup_cleanup_OK)
  with specs show ?thesis by blast
qed

text \<open>
  Claim C6: post-config setup fails for an enabled virtual host that is not the base
  server, has no configured certificate specifications, gets none from other modules
  and gets no fallback. The code does not do this. For virtual host 1 of the
  installation \<open>complete_cert_specs\<close> finds the case and reports ``has no
  certificates configured'' at error level, and \<open>server_conf_setup\<close> nevertheless
  returns \<open>APR_SUCCESS\<close>, with an empty list of certified keys.
\<close>

theorem server_conf_setup_without_certificates_succeeds:
  "\<not> sc_base_server ((ex_sc 1)\<lparr>sc_certified_keys := [], sc_rustls_config := None\<rparr>)
   \<and> sc_enabled ((ex_sc 1)\<lparr>sc_certified_keys := [], sc_rustls_config := None\<rparr>) = TLS_FLAG_TRUE
   \<and> sc_cert_specs ((ex_sc 1)\<lparr>sc_certified_keys := [], sc_rustls_config := None\<rparr>) = []
   \<and> h_add_cert_files ex_setup_host = ([], [])
   \<and> h_add_fallback_cert_files ex_setup_host = ([], [])
   \<and> snd (snd (complete_cert_specs (h_add_cert_files ex_setup_host)
                  (h_add_fallback_cert_files ex_setup_host)
                  ((ex_sc 1)\<lparr>sc_certified_keys := [], sc_rustls_config := None\<rparr>))) =
         Log_no_certificates_error
   \<and> (case server_conf_setup 1 ex_setup_host
              ((ex_sc 1)\<lparr>sc_certified_keys := [], sc_rustls_config := None\<rparr>) of
         Done (rv, sc') \<Rightarrow> rv = APR_SUCCESS \<and> sc_certified_keys sc' = []
       | Spinning sc' \<Rightarrow> False
       | Crashed \<Rightarrow> False)"
  by (simp add: server_conf_setup_def server_conf_setup_body_def server_conf_setup_builder_def
        server_conf_setup_versions_def server_conf_setup_finish_def set_ciphers_def
        complete_cert_specs_def add_file_specs_def tls_util_array_uint16_remove_def
        tls_util_array_uint16_contains_def
        ex_sc_def ex_setup_host_def ex_gc_def ex_proto_def Let_def)

section \<open>The state of a connection\<close>

lemma conn_state_Some: "tls_conf_conn_get c = Some cc \<Longrightarrow> conn_state c = cc_state cc"
  by (simp add: conn_state_def cc_get_or_make_def)

lemma conn_state_None: "tls_conf_conn_get c = None \<Longrightarrow> conn_state c = TLS_CONN_ST_INIT"
  by (simp add: conn_state_def cc_get_or_make_def cc_new_def Let_def)

lemma seen_client_hello_keeps_state:
  assumes "tls_core_conn_seen_client_hello fuel host hh c = res"
    and "res = Done (rv, c', calls) \<or> res = Spinning c'"
  shows "conn_state c' = conn_state c"
proof -
  from assms obtain cc where cc: "tls_conf_conn_get c = Some cc"
    by (auto simp: tls_core_conn_seen_client_hello_def split: option.splits)
  from assms cc obtain srv0 where srv0: "cc_server cc = Some srv0"
    by (auto simp: tls_core_conn_seen_client_hello_def split: option.splits)
  from assms cc srv0 obtain initial_sc where isc: "th_conf host srv0 = Some initial_sc"
    by (auto simp: tls_core_conn_seen_client_hello_def split: option.splits)
  show ?thesis
  proof (cases "cc_client_hello_seen cc")
    case False
    then have "c' = c"
      using assms cc srv0 isc by (auto simp: tls_core_conn_seen_client_hello_def)
    then show ?thesis by simp
  next
    case True
    show ?thesis
    proof (cases "seen_client_hello_sni hh initial_sc cc")
      case (Inl cc1)
      then have "c' = tls_conf_conn_set c cc1"
        using assms cc srv0 isc True by (auto simp: tls_core_conn_seen_client_hello_def)
      then show ?thesis
        using seen_client_hello_sni_keeps(2) [OF Inl] cc
        by (simp add: conn_state_Some tls_conf_conn_get_def tls_conf_conn_set_def)
    next
      case (Inr x)
      obtain sni_match cc1 where x: "x = (sni_match, cc1)" by (cases x) auto
      have "seen_client_hello_reinit fuel host hh c initial_sc sni_match cc1 = res"
        using assms(1) cc srv0 isc True Inr x
        by (simp add: tls_core_conn_seen_client_hello_def)
      from seen_client_hello_reinit_keeps [OF this assms(2)]
      obtain cc' where "tls_conf_conn_get c' = Some cc'" "cc_state cc' = cc_state cc1"
        by blast
      then show ?thesis
        using seen_client_hello_sni_keeps(1) [OF Inr [unfolded x]] cc
        by (simp add: conn_state_Some)
    qed
  qed
qed

lemma tls_core_conn_init_body_state:
  "tls_core_conn_init_body host lib c cc = Some (rr, cc1) \<Longrightarrow>
     cc_state cc1 = cc_state cc \<or> cc_state cc = TLS_CONN_ST_INIT"
  by (auto simp: tls_core_conn_init_body_def rustls_server_connection_new_def Let_def
        split: if_splits option.splits prod.splits)

lemma tls_core_conn_init_state:
  assumes "run_conn (tls_core_conn_init fuel host lib c) = Some c'"
  shows "conn_state c' = conn_state c \<or> conn_state c = TLS_CONN_ST_INIT
         \<or> (conn_state c' = TLS_CONN_ST_DISABLED \<and> c_aborted c')"
proof -
  obtain cc c1 where made: "cc_get_or_make c = (cc, c1)" by (cases "cc_get_or_make c") auto
  then have st: "conn_state c = cc_state cc" by (simp add: conn_state_def)
  from assms made obtain rr cc1 where body: "tls_core_conn_init_body host lib c1 cc = Some (rr, cc1)"
    by (auto simp: tls_core_conn_init_def split: option.splits)
  note b = tls_core_conn_init_body_state [OF body]
  show ?thesis
  proof (cases "rr = RUSTLS_RESULT_OK")
    case True
    then have "c' = tls_conf_conn_set c1 cc1"
      using assms made body by (simp add: tls_core_conn_init_def tls_core_conn_init_cleanup_OK)
    then have "conn_state c' = cc_state cc1"
      by (simp add: conn_state_Some tls_conf_conn_get_def tls_conf_conn_set_def)
    with b st show ?thesis by auto
  next
    case False
    then have "c' = (if fuel = 0 then tls_conf_conn_set c1 cc1
               else tls_conf_conn_set (c1\<lparr>c_aborted := True\<rparr>)
                      (cc1\<lparr>cc_state := TLS_CONN_ST_DISABLED\<rparr>))"
      using assms made body
      by (simp add: tls_core_conn_init_def tls_core_conn_init_cleanup_failed)
    then have "conn_state c' = cc_state cc1
               \<or> (conn_state c' = TLS_CONN_ST_DISABLED \<and> c_aborted c')"
      by (auto simp: conn_state_Some tls_conf_conn_get_def tls_conf_conn_set_def
            split: if_splits)
    with b st show ?thesis by auto
  qed
qed

lemma tls_core_conn_post_handshake_state:
  assumes "run_conn (tls_core_conn_post_handshake host ph c) = Some c'"
  shows "conn_state c' = conn_state c"
  using assms
  by (auto simp: tls_core_conn_post_handshake_def Let_def conn_state_Some
        tls_conf_conn_get_def tls_conf_conn_set_def conn_state_def cc_get_or_make_def
        split: option.splits if_splits)

lemma tls_core_conn_disable_state:
  "conn_state (tls_core_conn_disable c) = conn_state c
   \<or> conn_state c = TLS_CONN_ST_INIT"
  by (auto simp: tls_core_conn_disable_def conn_state_def cc_get_or_make_def
        tls_conf_conn_get_def tls_conf_conn_set_def Let_def cc_new_def
        split: option.splits prod.splits)

text \<open>
  What one call does to the state, read where the call leaves the connection record: on
  return, or inside the block at \<open>cleanup\<close> of a call that stays there.
\<close>

lemma conn_op_apply_state:
  assumes "conn_op_apply fuel host op c = Some c'"
  shows "state_rank (conn_state c) \<le> state_rank (conn_state c')
     \<or> (conn_state c' = TLS_CONN_ST_DISABLED \<and> c_aborted c' \<and> (\<exists>lib. op = Op_conn_init lib))"
proof (cases op)
  case Op_conn_disable
  then show ?thesis
    using assms tls_core_conn_disable_state [of c] by auto
next
  case (Op_conn_init lib)
  then show ?thesis
    using assms tls_core_conn_init_state [of fuel host lib c c'] by auto
next
  case (Op_client_hello hello)
  then have "conn_state c' = conn_state c"
    using assms
    by (auto simp: conn_state_def cc_get_or_make_def tls_conf_conn_get_def
          tls_conf_conn_set_def extract_client_hello_values_def split: option.splits)
  then show ?thesis by simp
next
  case (Op_seen_client_hello hh)
  then have "\<exists>rv calls. tls_core_conn_seen_client_hello fuel host hh c = Done (rv, c', calls)
             \<or> tls_core_conn_seen_client_hello fuel host hh c = Spinning c'"
    using assms by (auto split: run.splits)
  then have "conn_state c' = conn_state c"
    using seen_client_hello_keeps_state by blast
  then show ?thesis by simp
next
  case (Op_post_handshake ph)
  then show ?thesis
    using assms tls_core_conn_post_handshake_state [of host ph c c'] by auto
qed

text \<open>
  A call of \<open>tls_core_conn_init\<close> that returns has not lowered the state, and it
  returns the same connection record whatever the fuel: the block at \<open>cleanup\<close> is
  passed at most once by a call that returns.
\<close>

lemma tls_core_conn_init_returned:
  assumes "conn_returned (tls_core_conn_init fuel host lib c) = Some c'"
  shows "state_rank (conn_state c) \<le> state_rank (conn_state c')
         \<and> conn_returned (tls_core_conn_init fuel' host lib c) = Some c'"
proof -
  obtain cc c1 where made: "cc_get_or_make c = (cc, c1)" by (cases "cc_get_or_make c") auto
  then have st: "conn_state c = cc_state cc" by (simp add: conn_state_def)
  from assms made obtain rr cc1 where body: "tls_core_conn_init_body host lib c1 cc = Some (rr, cc1)"
    by (auto simp: tls_core_conn_init_def split: option.splits)
  note b = tls_core_conn_init_body_state [OF body]
  have rr: "rr = RUSTLS_RESULT_OK"
  proof (rule ccontr)
    assume "rr \<noteq> RUSTLS_RESULT_OK"
    then show False
      using assms made body
      by (simp add: tls_core_conn_init_def tls_core_conn_init_cleanup_failed)
  qed
  then have c': "c' = tls_conf_conn_set c1 cc1"
    using assms made body by (simp add: tls_core_conn_init_def tls_core_conn_init_cleanup_OK)
  then have "conn_state c' = cc_state cc1"
    by (simp add: conn_state_Some tls_conf_conn_get_def tls_conf_conn_set_def)
  with b st have "state_rank (conn_state c) \<le> state_rank (conn_state c')" by auto
  moreover have "conn_returned (tls_core_conn_init fuel' host lib c) = Some c'"
    using rr c' made body by (simp add: tls_core_conn_init_def tls_core_conn_init_cleanup_OK)
  ultimately show ?thesis by simp
qed

text \<open>
  The same for \<open>select_application_protocol\<close> and the functions that call it: what a
  call returns does not depend on the fuel.
\<close>

lemma select_application_protocol_fuel:
  assumes "select_application_protocol fuel host hh c s builder = Done y"
  shows "select_application_protocol fuel' host hh c s builder = Done y"
proof -
  from assms obtain cc where cc: "tls_conf_conn_get c = Some cc"
    by (auto simp: select_application_protocol_def split: option.splits)
  obtain rr rv cc' builder' calls where
    body: "select_application_protocol_body hh cc s builder = (rr, rv, cc', builder', calls)"
    by (metis prod_cases5)
  have "rr = RUSTLS_RESULT_OK"
  proof (rule ccontr)
    assume "rr \<noteq> RUSTLS_RESULT_OK"
    then show False
      using assms cc body
      by (simp add: select_application_protocol_def select_application_protocol_cleanup_failed)
  qed
  then show ?thesis
    using assms cc body
    by (simp add: select_application_protocol_def select_application_protocol_cleanup_OK)
qed

lemma seen_client_hello_reinit_fuel:
  assumes "seen_client_hello_reinit fuel host hh c initial_sc sni_match cc1 = Done y"
  shows "seen_client_hello_reinit fuel' host hh c initial_sc sni_match cc1 = Done y"
proof -
  from assms obtain srv where srv: "cc_server cc1 = Some srv"
    by (auto simp: seen_client_hello_reinit_def split: option.splits)
  from assms srv obtain sc where sc: "th_conf host srv = Some sc"
    by (auto simp: seen_client_hello_reinit_def split: option.splits)
  let ?cc2 = "cc1\<lparr>cc_service_unavailable :=
                    (if sni_match then sc_service_unavailable sc else False)\<rparr>"
  let ?c2 = "tls_conf_conn_set c ?cc2"
  let ?builder = "case sc_rustls_config sc of Some cfg \<Rightarrow> cfg
                  | None \<Rightarrow> the (sc_rustls_config initial_sc)"
  show ?thesis
  proof (cases "(sc_rustls_config sc = None \<and> sc_rustls_config initial_sc = None)
                \<or> \<not> hh_builder_from_config hh")
    case True
    then show ?thesis
      using assms srv sc
      by (auto simp: seen_client_hello_reinit_def Let_def split: if_splits)
  next
    case False
    show ?thesis
    proof (cases "select_application_protocol fuel host hh ?c2 srv ?builder")
      case (Done x)
      from select_application_protocol_fuel [OF Done]
      have "select_application_protocol fuel' host hh ?c2 srv ?builder = Done x" .
      with Done assms srv sc False show ?thesis
        by (auto simp: seen_client_hello_reinit_def Let_def)
    next
      case (Spinning c3)
      then show ?thesis
        using assms srv sc False
        by (auto simp: seen_client_hello_reinit_def Let_def split: if_splits)
    next
      case Crashed
      then show ?thesis
        using assms srv sc False
        by (auto simp: seen_client_hello_reinit_def Let_def split: if_splits)
    qed
  qed
qed

lemma seen_client_hello_fuel:
  assumes "tls_core_conn_seen_client_hello fuel host hh c = Done y"
  shows "tls_core_conn_seen_client_hello fuel' host hh c = Done y"
  using assms seen_client_hello_reinit_fuel [of fuel host hh c _ _ _ y fuel']
  by (auto simp: tls_core_conn_seen_client_hello_def
        split: option.splits if_splits sum.splits prod.splits)

text \<open>
  One call that returns: the state is not lowered, and the call returns the same
  connection record whatever the fuel.
\<close>

lemma conn_op_return_step:
  assumes "conn_op_return fuel host op c = Some c'"
  shows "state_rank (conn_state c) \<le> state_rank (conn_state c')
         \<and> conn_op_return fuel' host op c = Some c'"
proof (cases op)
  case Op_conn_disable
  then show ?thesis
    using assms tls_core_conn_disable_state [of c] by auto
next
  case (Op_conn_init lib)
  then show ?thesis
    using assms tls_core_conn_init_returned [of fuel host lib c c' fuel'] by simp
next
  case (Op_client_hello hello)
  then have "conn_state c' = conn_state c"
    using assms
    by (auto simp: conn_state_def cc_get_or_make_def tls_conf_conn_get_def
          tls_conf_conn_set_def extract_client_hello_values_def split: option.splits)
  then show ?thesis using assms Op_client_hello by simp
next
  case (Op_seen_client_hello hh)
  then obtain rv calls where
    d: "tls_core_conn_seen_client_hello fuel host hh c = Done (rv, c', calls)"
    using assms by (auto split: run.splits)
  then have "conn_state c' = conn_state c"
    using seen_client_hello_keeps_state by blast
  moreover have "conn_op_return fuel' host op c = Some c'"
    using seen_client_hello_fuel [OF d, of fuel'] Op_seen_client_hello by simp
  ultimately show ?thesis by simp
next
  case (Op_post_handshake ph)
  then have "run_conn (tls_core_conn_post_handshake host ph c) = Some c'"
    using assms by (cases "tls_core_conn_post_handshake host ph c") auto
  from tls_core_conn_post_handshake_state [OF this] assms Op_post_handshake
  show ?thesis by simp
qed

lemma conn_op_return_apply:
  "conn_op_return fuel host op c = Some c' \<Longrightarrow> conn_op_apply fuel host op c = Some c'"
  by (cases op;
      cases "tls_core_conn_init fuel host (case op of Op_conn_init l \<Rightarrow> l | _ \<Rightarrow> undefined) c";
      cases "tls_core_conn_post_handshake host
               (case op of Op_post_handshake p \<Rightarrow> p | _ \<Rightarrow> undefined) c")
     (auto split: run.splits)

text \<open>
  Where the state is lowered: only inside a call of \<open>tls_core_conn_init\<close> that does
  not return for any fuel. Creating the probe session has failed, and the block at
  \<open>cleanup\<close> sets \<open>c->aborted\<close> and the state DISABLED and jumps back to its own
  label with \<open>rr\<close> unchanged.
\<close>

lemma conn_state_lowered_only_in_cleanup_block:
  assumes "conn_op_apply fuel host op c = Some c'"
    and "state_rank (conn_state c') < state_rank (conn_state c)"
  shows "(\<exists>lib. op = Op_conn_init lib) \<and> (\<forall>n. conn_op_return n host op c = None)
         \<and> conn_state c' = TLS_CONN_ST_DISABLED \<and> c_aborted c'"
proof -
  from conn_op_apply_state [OF assms(1)] assms(2)
  have e: "conn_state c' = TLS_CONN_ST_DISABLED \<and> c_aborted c' \<and> (\<exists>lib. op = Op_conn_init lib)"
    by auto
  have "conn_op_return n host op c = None" for n
  proof (rule ccontr)
    assume "conn_op_return n host op c \<noteq> None"
    then obtain c'' where r: "conn_op_return n host op c = Some c''" by auto
    from conn_op_return_step [OF r, of fuel]
    have m: "state_rank (conn_state c) \<le> state_rank (conn_state c'')"
      and r': "conn_op_return fuel host op c = Some c''" by auto
    from conn_op_return_apply [OF r'] assms(1) have "c'' = c'" by simp
    with m assms(2) show False by simp
  qed
  with e show ?thesis by blast
qed





section \<open>Fallback certificates and 503\<close>

text \<open>
  \<open>service_unavailable\<close> is set by \<open>select_application_protocol\<close> only after a
  challenge certificate was loaded.
\<close>

lemma select_application_protocol_body_flag:
  assumes "select_application_protocol_body hh cc s builder = (rr, rv, cc', builder', calls)"
    and "cc_service_unavailable cc'"
  shows "cc_service_unavailable cc \<or> Call_load_cert_key \<in> set calls"
  using assms
  by (auto simp: select_application_protocol_body_def use_local_key_def Let_def
        split: option.splits if_splits prod.splits sum.splits)

lemma select_application_protocol_flag:
  assumes "tls_conf_conn_get c = Some cc"
    and "select_application_protocol fuel host hh c s builder = Done (rv, c', builder', calls)"
    and "tls_conf_conn_get c' = Some cc'"
    and "cc_service_unavailable cc'"
  shows "cc_service_unavailable cc \<or> Call_load_cert_key \<in> set calls"
proof -
  obtain rr rv0 cc0 builder0 calls0 where
    body: "select_application_protocol_body hh cc s builder = (rr, rv0, cc0, builder0, calls0)"
    by (metis prod_cases5)
  have rr: "rr = RUSTLS_RESULT_OK"
  proof (rule ccontr)
    assume "rr \<noteq> RUSTLS_RESULT_OK"
    then show False
      using assms(1,2) body
      by (simp add: select_application_protocol_def select_application_protocol_cleanup_failed)
  qed
  then have "c' = tls_conf_conn_set c cc0" "calls = calls0"
    using assms(1,2) body
    by (simp_all add: select_application_protocol_def select_application_protocol_cleanup_OK)
  then have "cc' = cc0" using assms(3)
    by (simp add: tls_conf_conn_get_def tls_conf_conn_set_def)
  with select_application_protocol_body_flag [OF body] assms(4) \<open>calls = calls0\<close>
  show ?thesis by simp
qed

lemma seen_client_hello_session_calls:
  assumes "seen_client_hello_session host hh c cc builder calls = (rv, c', calls')"
  shows "set calls \<subseteq> set calls'"
  using assms
  by (auto simp: seen_client_hello_session_def Let_def split: prod.splits if_splits)

lemma seen_client_hello_reinit_unmatched:
  assumes "seen_client_hello_reinit fuel host hh c initial_sc False cc1 = Done (rv, c', calls)"
    and "tls_conf_conn_get c' = Some cc'"
    and "cc_service_unavailable cc'"
  shows "Call_load_cert_key \<in> set calls"
proof -
  from assms(1) obtain srv where srv: "cc_server cc1 = Some srv"
    by (auto simp: seen_client_hello_reinit_def split: option.splits)
  from assms(1) srv obtain sc where sc: "th_conf host srv = Some sc"
    by (auto simp: seen_client_hello_reinit_def split: option.splits)
  let ?cc2 = "cc1\<lparr>cc_service_unavailable := False\<rparr>"
  let ?c2 = "tls_conf_conn_set c ?cc2"
  let ?builder = "case sc_rustls_config sc of Some cfg \<Rightarrow> cfg
                  | None \<Rightarrow> the (sc_rustls_config initial_sc)"
  have get2: "tls_conf_conn_get ?c2 = Some ?cc2"
    by (simp add: tls_conf_conn_get_def tls_conf_conn_set_def)
  show ?thesis
  proof (cases "(sc_rustls_config sc = None \<and> sc_rustls_config initial_sc = None)
                \<or> \<not> hh_builder_from_config hh")
    case True
    then have "c' = ?c2"
      using assms(1) srv sc
      by (auto simp: seen_client_hello_reinit_def Let_def split: if_splits)
    with assms(2) get2 have "cc' = ?cc2" by simp
    then have "\<not> cc_service_unavailable cc'" by simp
    with assms(3) show ?thesis by simp
  next
    case False
    show ?thesis
    proof (cases "select_application_protocol fuel host hh ?c2 srv ?builder")
      case (Done x)
      obtain rv2 c3 builder3 calls2 where x: "x = (rv2, c3, builder3, calls2)"
        by (cases x) auto
      note sel = select_application_protocol_flag [OF get2 Done [unfolded x]]
      show ?thesis
      proof (cases "rv2 = APR_SUCCESS")
        case True
        from assms(1) srv sc False Done x True obtain cc3 where
          cc3: "tls_conf_conn_get c3 = Some cc3"
          by (auto simp: seen_client_hello_reinit_def Let_def split: option.splits)
        have ses: "seen_client_hello_session host hh c3 cc3 builder3
                     (Call_builder_from_config # calls2) = (rv, c', calls)"
          using assms(1) srv sc False Done x True cc3
          by (auto simp: seen_client_hello_reinit_def Let_def)
        from seen_client_hello_session_keeps [OF ses] assms(2,3)
        have "cc_service_unavailable cc3" by auto
        with sel [OF cc3] have "Call_load_cert_key \<in> set calls2" by simp
        with seen_client_hello_session_calls [OF ses] show ?thesis by auto
      next
        case False
        have r: "c' = c3" "calls = Call_builder_from_config # calls2 @ [Call_builder_free]"
          using assms(1) srv sc \<open>\<not> ((sc_rustls_config sc = None \<and> sc_rustls_config initial_sc = None)
                \<or> \<not> hh_builder_from_config hh)\<close> Done x False
          by (auto simp: seen_client_hello_reinit_def Let_def)
        with sel [of cc'] assms(2,3) show ?thesis by simp
      qed
    next
      case (Spinning c3)
      then show ?thesis
        using assms(1) srv sc False by (auto simp: seen_client_hello_reinit_def Let_def)
    next
      case Crashed
      then show ?thesis
        using assms(1) srv sc False by (auto simp: seen_client_hello_reinit_def Let_def)
    qed
  qed
qed

lemma seen_client_hello_sni_unmatched:
  assumes "seen_client_hello_sni hh initial_sc cc = Inr (sni_match, cc1)"
    and "\<not> (\<exists>name. cc_sni_hostname cc = Some name
              \<and> ((\<exists>s \<in> set (hh_vhosts hh). hh_name_matches hh name s)
                  \<or> hh_name_matches hh name (hh_ap_server_conf hh)))"
  shows "\<not> sni_match"
  using assms
  by (auto simp: seen_client_hello_sni_def ap_vhost_iterate_find_vhost find_Some_iff
        split: option.splits if_splits)

text \<open>
  Claim C3, as amended: let \<open>tls_core_conn_seen_client_hello\<close> succeed on a
  TLS-enabled connection and select a server that has \<open>service_unavailable\<close> set (it
  was started with fallback certificates only). If the client hello carried an SNI name
  that matched a virtual host or the base server, then \<open>cc.service_unavailable\<close> is set
  and every request on the connection is answered with 503. If the client sent no SNI,
  or its SNI matched no server (relaxed SNI checking), and no challenge certificate
  was loaded for the connection, then \<open>cc.service_unavailable\<close> is cleared and no
  request on the connection is answered with 503.
\<close>

theorem service_unavailable_after_sni_match:
  assumes "tls_conf_conn_get c = Some cc"
    and "cc_client_hello_seen cc"
    and "TLS_CONN_ST_IS_ENABLED (Some cc)"
    and "tls_core_conn_seen_client_hello fuel host hh c = Done (APR_SUCCESS, c', calls)"
    and "tls_conf_conn_get c' = Some cc'"
    and "cc_server cc' = Some srv"
    and "th_conf host srv = Some sc"
    and "sc_service_unavailable sc"
  shows "((\<exists>name. cc_sni_hostname cc = Some name
              \<and> ((\<exists>s \<in> set (hh_vhosts hh). hh_name_matches hh name s)
                  \<or> hh_name_matches hh name (hh_ap_server_conf hh)))
          \<longrightarrow> cc_service_unavailable cc'
              \<and> (\<forall>r. r_connection r = c' \<longrightarrow> tls_core_request_check (th_conf host) r = 503))
     \<and> (\<not> (\<exists>name. cc_sni_hostname cc = Some name
              \<and> ((\<exists>s \<in> set (hh_vhosts hh). hh_name_matches hh name s)
                  \<or> hh_name_matches hh name (hh_ap_server_conf hh)))
          \<and> Call_load_cert_key \<notin> set calls
          \<longrightarrow> \<not> cc_service_unavailable cc'
              \<and> (\<forall>r. r_connection r = c' \<longrightarrow> tls_core_request_check (th_conf host) r \<noteq> 503))"
proof -
  let ?matched = "\<exists>name. cc_sni_hostname cc = Some name
              \<and> ((\<exists>s \<in> set (hh_vhosts hh). hh_name_matches hh name s)
                  \<or> hh_name_matches hh name (hh_ap_server_conf hh))"
  from assms(1,4) obtain srv0 where srv0: "cc_server cc = Some srv0"
    by (auto simp: tls_core_conn_seen_client_hello_def split: option.splits)
  from assms(1,4) srv0 obtain initial_sc where isc: "th_conf host srv0 = Some initial_sc"
    by (auto simp: tls_core_conn_seen_client_hello_def split: option.splits)
  from assms(1,2,4) srv0 isc obtain sni_match cc1 where
    sni: "seen_client_hello_sni hh initial_sc cc = Inr (sni_match, cc1)"
    and reinit: "seen_client_hello_reinit fuel host hh c initial_sc sni_match cc1 =
                   Done (APR_SUCCESS, c', calls)"
    by (auto simp: tls_core_conn_seen_client_hello_def split: sum.splits)
  from seen_client_hello_reinit_keeps [OF reinit]
  obtain cc'' srv' sc' where k: "tls_conf_conn_get c' = Some cc''"
    "cc_state cc'' = cc_state cc1" "cc_server cc'' = Some srv'" "th_conf host srv' = Some sc'"
    "sni_match \<and> sc_service_unavailable sc' \<longrightarrow> cc_service_unavailable cc''"
    by blast
  have "cc_state cc' = cc_state cc"
    using k assms(5) seen_client_hello_sni_keeps(1) [OF sni] by auto
  then have en: "TLS_CONN_ST_IS_ENABLED (Some cc')"
    using assms(3) by (simp add: TLS_CONN_ST_IS_ENABLED_def)
  have yes: "cc_service_unavailable cc'
      \<and> (\<forall>r. r_connection r = c' \<longrightarrow> tls_core_request_check (th_conf host) r = 503)"
    if m: ?matched
  proof -
    from m obtain name where name: "cc_sni_hostname cc = Some name"
      "(\<exists>s \<in> set (hh_vhosts hh). hh_name_matches hh name s)
         \<or> hh_name_matches hh name (hh_ap_server_conf hh)" by blast
    from seen_client_hello_sni_matched [OF name, of initial_sc] sni
    have "sni_match" by simp
    with k assms(5-8) have flag: "cc_service_unavailable cc'" by auto
    have "tls_core_request_check (th_conf host) r = 503" if "r_connection r = c'" for r
      using that assms(5) en flag
      by (simp add: tls_core_request_check_def Let_def HTTP_SERVICE_UNAVAILABLE_def)
    with flag show ?thesis by blast
  qed
  have no: "\<not> cc_service_unavailable cc'
      \<and> (\<forall>r. r_connection r = c' \<longrightarrow> tls_core_request_check (th_conf host) r \<noteq> 503)"
    if m: "\<not> ?matched" and l: "Call_load_cert_key \<notin> set calls"
  proof -
    from seen_client_hello_sni_unmatched [OF sni m] have "\<not> sni_match" .
    with reinit seen_client_hello_reinit_unmatched [of fuel host hh c initial_sc cc1
        APR_SUCCESS c' calls cc'] assms(5) l
    have flag: "\<not> cc_service_unavailable cc'" by auto
    have "tls_core_request_check (th_conf host) r \<noteq> 503" if "r_connection r = c'" for r
      using that assms(5) en flag
      by (simp add: tls_core_request_check_def Let_def HTTP_FORBIDDEN_def
            HTTP_MISDIRECTED_REQUEST_def DECLINED_def)
    with flag show ?thesis by blast
  qed
  from yes no show ?thesis by blast
qed

theorem service_unavailable_after_sni_match_witness:
  "tls_core_conn_seen_client_hello 0 ex_fallback_host ex_hello_host ex_sni_conn =
     Done (APR_SUCCESS, ex_sni_conn_selected,
           [Call_builder_from_config, Call_connection_free, Call_builder_build,
            Call_connection_new, Call_config_free])
   \<and> tls_core_request_check (th_conf ex_fallback_host)
        \<lparr>r_connection = ex_sni_conn_selected, r_server = Some 1\<rparr> = 503"
proof -
  let ?cc = "extract_client_hello_values
                    \<lparr>hello_sni_name = ''b.example'', hello_alpn = []\<rparr>
                    ((cc_new 0)\<lparr>cc_state := TLS_CONN_ST_PRE_HANDSHAKE,
                      cc_rustls_connection := Some (Rustls_connection ex_hello_config)\<rparr>)"
  have run: "tls_core_conn_seen_client_hello 0 ex_fallback_host ex_hello_host ex_sni_conn =
     Done (APR_SUCCESS, ex_sni_conn_selected,
           [Call_builder_from_config, Call_connection_free, Call_builder_build,
            Call_connection_new, Call_config_free])"
    by (simp add: tls_core_conn_seen_client_hello_def
        seen_client_hello_sni_def seen_client_hello_reinit_def seen_client_hello_session_def
        select_application_protocol_def select_application_protocol_body_def
        rustls_server_connection_new_def find_vhost_def
        extract_client_hello_values_def ex_sni_conn_def ex_sni_conn_selected_def
        ex_fallback_host_def
        tls_conf_conn_get_def tls_conf_conn_set_def cc_new_def Let_def
        ex_host_def ex_sc_def ex_gc_def ex_conn_def ex_hello_host_def)
  have m: "\<exists>name. cc_sni_hostname ?cc = Some name
              \<and> ((\<exists>s \<in> set (hh_vhosts ex_hello_host). hh_name_matches ex_hello_host name s)
                  \<or> hh_name_matches ex_hello_host name (hh_ap_server_conf ex_hello_host))"
    by (simp add: extract_client_hello_values_def ex_hello_host_def)
  have "(\<exists>name. cc_sni_hostname ?cc = Some name
              \<and> ((\<exists>s \<in> set (hh_vhosts ex_hello_host). hh_name_matches ex_hello_host name s)
                  \<or> hh_name_matches ex_hello_host name (hh_ap_server_conf ex_hello_host)))
     \<longrightarrow> cc_service_unavailable ((cc_new 0)\<lparr>cc_server := Some 1, cc_state := TLS_CONN_ST_PRE_HANDSHAKE,
                   cc_rustls_connection := Some (Rustls_connection ex_rustls_config),
                   cc_client_hello_seen := True, cc_sni_hostname := Some ''b.example'',
                   cc_application_protocol := Some ''http/1.1'',
                   cc_service_unavailable := True\<rparr>)
     \<and> (\<forall>r. r_connection r = ex_sni_conn_selected \<longrightarrow>
            tls_core_request_check (th_conf ex_fallback_host) r = 503)"
    by (rule service_unavailable_after_sni_match
          [OF _ _ _ run, where srv = 1
                 and sc = "(ex_sc 1)\<lparr>sc_service_unavailable := True\<rparr>"
                 and cc = ?cc, THEN conjunct1])
       (simp_all add: ex_sni_conn_def ex_sni_conn_selected_def ex_fallback_host_def
          extract_client_hello_values_def TLS_CONN_ST_IS_ENABLED_def
          tls_conf_conn_get_def tls_conf_conn_set_def cc_new_def ex_host_def ex_hello_host_def)
  with m run show ?thesis by simp
qed

text \<open>
  Claim C3 as stated does not hold for a client without SNI: the base server has only
  fallback certificates, the connection is initialised on it, the client hello carries
  no SNI, and after \<open>tls_core_conn_seen_client_hello\<close> the connection is still served
  by the base server, is TLS-enabled, and a request on it is not answered with 503 but
  passes the gate (DECLINED). The source says so: on relaxed SNI matches the 503 of
  fallback certificates is not enforced.
\<close>

theorem service_unavailable_cleared_without_sni:
  "sc_service_unavailable ((ex_sc 0)\<lparr>sc_service_unavailable := True\<rparr>)
   \<and> (case conn_ops_apply 0 ex_fallback_host
              [Op_conn_init RUSTLS_RESULT_OK, Op_client_hello ex_no_sni,
               Op_seen_client_hello ex_hello_host] ex_conn of
         None \<Rightarrow> False
       | Some c' \<Rightarrow>
           map_option cc_server (tls_conf_conn_get c') = Some (Some 0)
           \<and> TLS_CONN_ST_IS_ENABLED (tls_conf_conn_get c')
           \<and> tls_core_request_check (th_conf ex_fallback_host)
                \<lparr>r_connection = c', r_server = Some 0\<rparr> = DECLINED)
   \<and> DECLINED \<noteq> (503 :: int)"
  by (simp add: tls_core_conn_init_def tls_core_conn_init_body_def cc_get_or_make_def
        rustls_server_connection_new_def tls_core_conn_seen_client_hello_def
        seen_client_hello_sni_def seen_client_hello_reinit_def seen_client_hello_session_def
        select_application_protocol_def select_application_protocol_body_def
        extract_client_hello_values_def TLS_CONN_ST_IS_ENABLED_def
        tls_core_request_check_def tls_conn_compatible_for_def DECLINED_def
        tls_conf_conn_get_def tls_conf_conn_set_def cc_new_def Let_def ex_fallback_host_def
        ex_host_def ex_sc_def ex_gc_def ex_conn_def ex_hello_host_def ex_no_sni_def
        TLS_FLAG_TRUE_def)


end
